theory Spec2Isabelle
  imports Main
begin

section \<open>JavaScript strings\<close>

text \<open>
  A JavaScript string is a sequence of UTF-16 code units; the regular expressions of the
  source (none carries the \<open>u\<close> flag) and \<open>includes\<close>, \<open>trim\<close> and \<open>JSON.parse\<close>
  all work on code units. A string is therefore a list of code units, each a natural
  number. \<open>js\<close> embeds an ASCII literal.
\<close>

type_synonym jsstring = "nat list"

definition js :: "string \<Rightarrow> jsstring" where
  "js s = map of_char s"

text \<open>\<open>s.startsWith(p)\<close> and \<open>s.includes(needle)\<close>.\<close>

fun starts_with :: "jsstring \<Rightarrow> jsstring \<Rightarrow> bool" where
  "starts_with s [] = True"
| "starts_with [] (p # ps) = False"
| "starts_with (c # cs) (p # ps) = (c = p \<and> starts_with cs ps)"

fun js_includes :: "jsstring \<Rightarrow> jsstring \<Rightarrow> bool" where
  "js_includes [] needle = (needle = [])"
| "js_includes (c # cs) needle = (starts_with (c # cs) needle \<or> js_includes cs needle)"

text \<open>
  The class \<open>\s\<close> of a regular expression, which is also what \<open>trim()\<close> strips: the
  white space and line terminator code units of ECMAScript.
\<close>

definition is_space :: "nat \<Rightarrow> bool" where
  "is_space c \<longleftrightarrow>
     c \<in> {9, 10, 11, 12, 13, 32, 160, 5760, 8232, 8233, 8239, 8287, 12288, 65279}
     \<or> (8192 \<le> c \<and> c \<le> 8202)"

definition trim :: "jsstring \<Rightarrow> jsstring" where
  "trim s = rev (dropWhile is_space (rev (dropWhile is_space s)))"

text \<open>
  \<open>toLowerCase()\<close> on the letters A to Z. The handler only searches the lowered text
  for \<open>return\<close>, \<open>.name\<close> and \<open>as \<close>, and no code unit outside A to Z is lowered to
  one of the code units of these three needles.
\<close>

definition toLowerCase :: "jsstring \<Rightarrow> jsstring" where
  "toLowerCase s = map (\<lambda>c. if 65 \<le> c \<and> c \<le> 90 then c + 32 else c) s"

text \<open>
  \<open>s.replace(re, replacement)\<close> for a regular expression \<open>re\<close> with the \<open>g\<close> flag that
  cannot match the empty string. The matcher \<open>m\<close> tells whether \<open>re\<close> matches at the very
  start of its argument; if so it gives the text to put in place of the match and the
  number of code units the match takes after its first one. The scan tries each position
  from the left and continues behind a match, as \<open>lastIndex\<close> does.
\<close>

fun replace_global :: "(jsstring \<Rightarrow> (jsstring \<times> nat) option) \<Rightarrow> jsstring \<Rightarrow> jsstring" where
  "replace_global m [] = []"
| "replace_global m (c # cs) =
     (case m (c # cs) of
        Some (out, k) \<Rightarrow> out @ replace_global m (drop k cs)
      | None \<Rightarrow> c # replace_global m cs)"

section \<open>Query rewrites of the route handler (src/app/api/chat/route.ts)\<close>

text \<open>The relationship label of lines 286-288: the two code units U+59BB U+5B50.\<close>

definition wife :: jsstring where
  "wife = [22971, 23376]"

definition not_rparen :: "nat \<Rightarrow> bool" where
  "not_rparen c \<longleftrightarrow> c \<noteq> 41"

text \<open>
  A match of \<open>/\(([^)]+)\)-\[:L\]->\(([^)]+)\)/\<close> at the start of \<open>s\<close>, for the fixed
  label \<open>L\<close> of line 288. Each group \<open>[^)]+\<close> is followed by \<open>\)\<close> in the pattern, so it
  can only be the whole run of code units up to the next closing parenthesis: no
  backtracking is possible. The result is group 1, group 2 and the number of code units
  of the match after the opening parenthesis.
\<close>

definition wife_directed :: "jsstring \<Rightarrow> (jsstring \<times> jsstring \<times> nat) option" where
  "wife_directed s =
     (case s of
        [] \<Rightarrow> None
      | c # r0 \<Rightarrow>
          if c \<noteq> 40 then None
          else
            let g1 = takeWhile not_rparen r0;
                r1 = dropWhile not_rparen r0;
                lit = js '')-[:'' @ wife @ js '']->(''
            in if g1 = [] \<or> \<not> starts_with r1 lit then None
               else
                 let r2 = drop (length lit) r1;
                     g2 = takeWhile not_rparen r2;
                     r3 = dropWhile not_rparen r2
                 in if g2 = [] \<or> r3 = [] then None
                    else Some (g1, g2, length g1 + length lit + length g2 + 1))"

text \<open>\<open>cypherQuery.replace(/.../g, '($1)-[:L]-($2)')\<close> (line 288).\<close>

definition undirect_wife :: "jsstring \<Rightarrow> jsstring" where
  "undirect_wife q =
     replace_global
       (\<lambda>s. case wife_directed s of
               None \<Rightarrow> None
             | Some (g1, g2, k) \<Rightarrow>
                 Some (js ''('' @ g1 @ js '')-[:'' @ wife @ js '']-('' @ g2 @ js '')'', k)) q"

text \<open>Lines 286-290: the rewrite runs when the query text contains the label.\<close>

definition rewrite_wife :: "jsstring \<Rightarrow> jsstring" where
  "rewrite_wife q = (if js_includes q wife then undirect_wife q else q)"

text \<open>
  A match of \<open>/\(([^)]+)\)-\[:([^)]+)\]->\(([^)]+)\)/\<close> (lines 330 and 337) at the start
  of \<open>s\<close>. Group 1 is again the run up to the next closing parenthesis. Groups 2 and 3
  lie in one run \<open>run\<close> without a closing parenthesis, which a closing parenthesis must
  follow; the greedy group 2 is the longest non-empty prefix of \<open>run\<close> that is followed
  by \<open>]->(\<close> and a non-empty rest, which is group 3. \<open>split_arrow\<close> finds that split.
\<close>

fun split_arrow :: "jsstring \<Rightarrow> (jsstring \<times> jsstring) option" where
  "split_arrow [] = None"
| "split_arrow (c # cs) =
     (case split_arrow cs of
        Some (g2, g3) \<Rightarrow> Some (c # g2, g3)
      | None \<Rightarrow>
          if starts_with cs (js '']->('') \<and> drop 4 cs \<noteq> [] then Some ([c], drop 4 cs)
          else None)"

definition directed_pattern :: "jsstring \<Rightarrow> (jsstring \<times> jsstring \<times> jsstring \<times> nat) option" where
  "directed_pattern s =
     (case s of
        [] \<Rightarrow> None
      | c # r0 \<Rightarrow>
          if c \<noteq> 40 then None
          else
            let g1 = takeWhile not_rparen r0;
                r1 = dropWhile not_rparen r0;
                lit = js '')-[:''
            in if g1 = [] \<or> \<not> starts_with r1 lit then None
               else
                 let r2 = drop (length lit) r1;
                     run = takeWhile not_rparen r2;
                     r3 = dropWhile not_rparen r2
                 in if r3 = [] then None
                    else (case split_arrow run of
                            None \<Rightarrow> None
                          | Some (g2, g3) \<Rightarrow>
                              Some (g1, g2, g3, length g1 + length lit + length run + 1)))"

text \<open>Line 330: \<open>cypherQuery.replace(/.../g, '($3)-[:$2]->($1)')\<close>.\<close>

definition reversedQuery :: "jsstring \<Rightarrow> jsstring" where
  "reversedQuery q =
     replace_global
       (\<lambda>s. case directed_pattern s of
               None \<Rightarrow> None
             | Some (g1, g2, g3, k) \<Rightarrow>
                 Some (js ''('' @ g3 @ js '')-[:'' @ g2 @ js '']->('' @ g1 @ js '')'', k)) q"

text \<open>Line 337: \<open>cypherQuery.replace(/.../g, '($1)-[:$2]-($3)')\<close>.\<close>

definition undirectedQuery :: "jsstring \<Rightarrow> jsstring" where
  "undirectedQuery q =
     replace_global
       (\<lambda>s. case directed_pattern s of
               None \<Rightarrow> None
             | Some (g1, g2, g3, k) \<Rightarrow>
                 Some (js ''('' @ g1 @ js '')-[:'' @ g2 @ js '']-('' @ g3 @ js '')'', k)) q"

text \<open>A query with two directed relationships of the label that share the node \<open>b\<close>.\<close>

definition wife_chain :: jsstring where
  "wife_chain =
     js ''MATCH (a)-[:'' @ wife @ js '']->(b)-[:'' @ wife @ js '']->(c) RETURN a,b,c''"

section \<open>JSON.parse\<close>

text \<open>
  The built-in \<open>JSON.parse\<close>, by the JSON grammar: a lexer over the code units and a
  stack machine over the tokens, both total. A number keeps its literal; an object keeps
  its members in source order, and a property read takes the last member of that name.
  \<open>None\<close> is the \<open>SyntaxError\<close> that \<open>JSON.parse\<close> throws.
\<close>

datatype json =
    JNull
  | JBool bool
  | JNumber jsstring
  | JString jsstring
  | JArray "json list"
  | JObject "(jsstring \<times> json) list"

datatype token =
    TLBrace | TRBrace | TLBracket | TRBracket | TColon | TComma
  | TValue json

definition is_json_ws :: "nat \<Rightarrow> bool" where
  "is_json_ws c \<longleftrightarrow> c = 9 \<or> c = 10 \<or> c = 13 \<or> c = 32"

definition is_digit :: "nat \<Rightarrow> bool" where
  "is_digit c \<longleftrightarrow> 48 \<le> c \<and> c \<le> 57"

definition is_hex :: "nat \<Rightarrow> bool" where
  "is_hex c \<longleftrightarrow> is_digit c \<or> (65 \<le> c \<and> c \<le> 70) \<or> (97 \<le> c \<and> c \<le> 102)"

definition hex_val :: "nat \<Rightarrow> nat" where
  "hex_val c = (if is_digit c then c - 48 else if c \<le> 70 then c - 55 else c - 87)"

definition escape_char :: "nat \<Rightarrow> nat option" where
  "escape_char e =
     (if e = 34 \<or> e = 92 \<or> e = 47 then Some e
      else if e = 98 then Some 8
      else if e = 102 then Some 12
      else if e = 110 then Some 10
      else if e = 114 then Some 13
      else if e = 116 then Some 9
      else None)"

fun lex_string :: "jsstring \<Rightarrow> (jsstring \<times> jsstring) option" where
  "lex_string [] = None"
| "lex_string (c # cs) =
     (if c = 34 then Some ([], cs)
      else if c < 32 then None
      else if c = 92 then
        (case cs of
           [] \<Rightarrow> None
         | e # es \<Rightarrow>
             if e = 117 then
               (if 4 \<le> length es \<and> list_all is_hex (take 4 es) then
                  map_option (\<lambda>(str, rest). (foldl (\<lambda>a h. 16 * a + hex_val h) 0 (take 4 es) # str, rest))
                    (lex_string (drop 4 es))
                else None)
             else
               (case escape_char e of
                  None \<Rightarrow> None
                | Some x \<Rightarrow> map_option (\<lambda>(str, rest). (x # str, rest)) (lex_string es)))
      else map_option (\<lambda>(str, rest). (c # str, rest)) (lex_string cs))"

definition is_number_char :: "nat \<Rightarrow> bool" where
  "is_number_char c \<longleftrightarrow> is_digit c \<or> c = 43 \<or> c = 45 \<or> c = 46 \<or> c = 69 \<or> c = 101"

definition valid_exponent :: "jsstring \<Rightarrow> bool" where
  "valid_exponent r =
     (case r of
        [] \<Rightarrow> True
      | e # r1 \<Rightarrow>
          (e = 69 \<or> e = 101)
          \<and> (let ds = (case r1 of [] \<Rightarrow> [] | sg # r2 \<Rightarrow> if sg = 43 \<or> sg = 45 then r2 else r1)
             in ds \<noteq> [] \<and> list_all is_digit ds))"

definition valid_number :: "jsstring \<Rightarrow> bool" where
  "valid_number s =
     (let s1 = (case s of [] \<Rightarrow> [] | m # r \<Rightarrow> if m = 45 then r else s);
          ip = takeWhile is_digit s1;
          r1 = dropWhile is_digit s1
      in ip \<noteq> [] \<and> (length ip = 1 \<or> hd ip \<noteq> 48)
         \<and> (case r1 of
               [] \<Rightarrow> True
             | d # r2 \<Rightarrow>
                 if d = 46 then takeWhile is_digit r2 \<noteq> [] \<and> valid_exponent (dropWhile is_digit r2)
                 else valid_exponent r1))"

lemma lex_string_length: "lex_string s = Some (str, rest) \<Longrightarrow> length rest < length s"
proof (induction s arbitrary: str rest rule: lex_string.induct)
  case 1
  then show ?case by simp
next
  case (2 c cs)
  then show ?case
    by (fastforce split: if_splits list.splits option.splits)
qed

function lex :: "jsstring \<Rightarrow> token list option" where
  "lex [] = Some []"
| "lex (c # cs) =
     (if is_json_ws c then lex cs
      else if c = 123 then map_option ((#) TLBrace) (lex cs)
      else if c = 125 then map_option ((#) TRBrace) (lex cs)
      else if c = 91 then map_option ((#) TLBracket) (lex cs)
      else if c = 93 then map_option ((#) TRBracket) (lex cs)
      else if c = 58 then map_option ((#) TColon) (lex cs)
      else if c = 44 then map_option ((#) TComma) (lex cs)
      else if c = 34 then
        (case lex_string cs of
           None \<Rightarrow> None
         | Some (str, rest) \<Rightarrow> map_option ((#) (TValue (JString str))) (lex rest))
      else if c = 45 \<or> is_digit c then
        (if valid_number (c # takeWhile is_number_char cs)
         then map_option ((#) (TValue (JNumber (c # takeWhile is_number_char cs))))
                (lex (dropWhile is_number_char cs))
         else None)
      else if starts_with (c # cs) (js ''true'') then map_option ((#) (TValue (JBool True))) (lex (drop 3 cs))
      else if starts_with (c # cs) (js ''false'') then map_option ((#) (TValue (JBool False))) (lex (drop 4 cs))
      else if starts_with (c # cs) (js ''null'') then map_option ((#) (TValue JNull)) (lex (drop 3 cs))
      else None)"
  by pat_completeness auto
termination
proof (relation "measure length")
  show "wf (measure length)" by simp
qed (auto dest: lex_string_length intro: le_imp_less_Suc length_dropWhile_le)

datatype jframe = InArr "json list" | InObj "(jsstring \<times> json) list" "jsstring option"

datatype jmode = ExpVal bool | ExpKey bool | ExpColon | AfterElem | Done json

definition deliver :: "jframe list \<Rightarrow> json \<Rightarrow> (jframe list \<times> jmode) option" where
  "deliver stack v =
     (case stack of
        [] \<Rightarrow> Some ([], Done v)
      | InArr vs # st \<Rightarrow> Some (InArr (vs @ [v]) # st, AfterElem)
      | InObj kvs (Some k) # st \<Rightarrow> Some (InObj (kvs @ [(k, v)]) None # st, AfterElem)
      | InObj kvs None # st \<Rightarrow> None)"

fun jstep :: "jframe list \<times> jmode \<Rightarrow> token \<Rightarrow> (jframe list \<times> jmode) option" where
  "jstep (stack, ExpVal closing) (TValue v) = deliver stack v"
| "jstep (stack, ExpVal closing) TLBracket = Some (InArr [] # stack, ExpVal True)"
| "jstep (stack, ExpVal closing) TLBrace = Some (InObj [] None # stack, ExpKey True)"
| "jstep (InArr vs # stack, ExpVal True) TRBracket = deliver stack (JArray vs)"
| "jstep (InObj kvs None # stack, ExpKey closing) (TValue (JString k)) =
     Some (InObj kvs (Some k) # stack, ExpColon)"
| "jstep (InObj kvs None # stack, ExpKey True) TRBrace = deliver stack (JObject kvs)"
| "jstep (stack, ExpColon) TColon = Some (stack, ExpVal False)"
| "jstep (InArr vs # stack, AfterElem) TComma = Some (InArr vs # stack, ExpVal False)"
| "jstep (InArr vs # stack, AfterElem) TRBracket = deliver stack (JArray vs)"
| "jstep (InObj kvs None # stack, AfterElem) TComma = Some (InObj kvs None # stack, ExpKey False)"
| "jstep (InObj kvs None # stack, AfterElem) TRBrace = deliver stack (JObject kvs)"
| "jstep _ _ = None"

fun jrun :: "jframe list \<times> jmode \<Rightarrow> token list \<Rightarrow> (jframe list \<times> jmode) option" where
  "jrun st [] = Some st"
| "jrun st (t # ts) = (case jstep st t of None \<Rightarrow> None | Some st' \<Rightarrow> jrun st' ts)"

definition JSON_parse :: "jsstring \<Rightarrow> json option" where
  "JSON_parse s =
     (case lex s of
        None \<Rightarrow> None
      | Some ts \<Rightarrow>
          (case jrun ([], ExpVal False) ts of
             Some ([], Done v) \<Rightarrow> Some v
           | _ \<Rightarrow> None))"


text \<open>
  Truthiness of a parsed value, as \<open>!v\<close> and \<open>v || d\<close> test it. A number is falsy when
  it is zero: when all its digits are zero, or when the literal is so small that it rounds
  to zero as a double (at most \<open>2^-1075\<close>).
\<close>

definition digits_value :: "jsstring \<Rightarrow> nat" where
  "digits_value ds = foldl (\<lambda>a d. 10 * a + (d - 48)) 0 ds"

definition number_is_zero :: "jsstring \<Rightarrow> bool" where
  "number_is_zero s =
     (let s1 = (case s of [] \<Rightarrow> [] | m # r \<Rightarrow> if m = 45 then r else s);
          ip = takeWhile is_digit s1;
          r1 = dropWhile is_digit s1;
          fp = (case r1 of [] \<Rightarrow> [] | d # r2 \<Rightarrow> if d = 46 then takeWhile is_digit r2 else []);
          r3 = (case r1 of [] \<Rightarrow> [] | d # r2 \<Rightarrow> if d = 46 then dropWhile is_digit r2 else r1);
          ex = (case r3 of
                  [] \<Rightarrow> 0
                | e # r4 \<Rightarrow>
                    (case r4 of
                       [] \<Rightarrow> 0
                     | sg # r5 \<Rightarrow>
                         if sg = 45 then - int (digits_value r5)
                         else if sg = 43 then int (digits_value r5)
                         else int (digits_value r4)));
          m = digits_value (ip @ fp);
          x = ex - int (length fp)
      in m = 0 \<or> (x < 0 \<and> m * 2 ^ 1075 \<le> 10 ^ nat (- x)))"

fun truthy :: "json option \<Rightarrow> bool" where
  "truthy None = False"
| "truthy (Some JNull) = False"
| "truthy (Some (JBool b)) = b"
| "truthy (Some (JNumber n)) = (\<not> number_is_zero n)"
| "truthy (Some (JString s)) = (s \<noteq> [])"
| "truthy (Some (JArray vs)) = True"
| "truthy (Some (JObject kvs)) = True"

text \<open>
  \<open>v.k\<close> on a parsed value: a \<open>TypeError\<close> on \<open>null\<close>, the member of an object, and
  \<open>undefined\<close> (\<open>None\<close>) on an object without the member and on every other value.
\<close>

fun get_property :: "json \<Rightarrow> jsstring \<Rightarrow> jsstring + json option" where
  "get_property JNull k = Inl (js ''TypeError: Cannot read properties of null'')"
| "get_property (JObject kvs) k = Inr (map_of (rev kvs) k)"
| "get_property v k = Inr None"

section \<open>Parsing the LLM answer (generateCypherQuery, src/lib/neo4j.ts lines 440-489)\<close>

text \<open>
  \<open>content.match(/```(?:json)?\s*([\s\S]*?)\s*```/)\<close>, group 1. The match starts at the
  first fence; \<open>json\<close> and then all white space are skipped, and the lazy group is the
  shortest text after which white space and a closing fence follow. When no closing fence
  follows the first fence, no later start can match either.
\<close>

definition fence :: jsstring where
  "fence = [96, 96, 96]"

fun find_fence :: "jsstring \<Rightarrow> jsstring option" where
  "find_fence [] = None"
| "find_fence (c # cs) = (if starts_with (c # cs) fence then Some (drop 2 cs) else find_fence cs)"

fun lazy_group :: "jsstring \<Rightarrow> jsstring option" where
  "lazy_group [] = None"
| "lazy_group (c # cs) =
     (if starts_with (dropWhile is_space (c # cs)) fence then Some []
      else map_option ((#) c) (lazy_group cs))"

definition jsonBlockMatch :: "jsstring \<Rightarrow> jsstring option" where
  "jsonBlockMatch content =
     (case find_fence content of
        None \<Rightarrow> None
      | Some rest \<Rightarrow>
          lazy_group (dropWhile is_space
            (if starts_with rest (js ''json'') then drop 4 rest else rest)))"

text \<open>\<open>jsonContent.match(/{[\s\S]*}/)\<close>: from the first opening brace to the last closing
  brace behind it.\<close>

definition jsonMatch :: "jsstring \<Rightarrow> jsstring option" where
  "jsonMatch s =
     (case dropWhile (\<lambda>c. c \<noteq> 123) s of
        [] \<Rightarrow> None
      | b # body \<Rightarrow>
          if 125 \<in> set body then Some (b # rev (dropWhile (\<lambda>c. c \<noteq> 125) (rev body)))
          else None)"

text \<open>
  \<open>content.match(/lit["\s:]+([^"]+)/)\<close>, group 1, for a literal \<open>lit\<close>. After the
  literal, the greedy separator run takes every quote, white space and colon; the group
  is then the text up to the next quote. When the run reaches the end of the content, the
  run gives back code units until the group can take one that is not a quote: the group
  is that single code unit. A literal behind which this fails is skipped and the next
  occurrence tried.
\<close>

definition in_sep :: "nat \<Rightarrow> bool" where
  "in_sep c \<longleftrightarrow> c = 34 \<or> is_space c \<or> c = 58"

definition sep_then_group :: "jsstring \<Rightarrow> jsstring option" where
  "sep_then_group rest =
     (let run = takeWhile in_sep rest;
          after = dropWhile in_sep rest
      in if run = [] then None
         else if after \<noteq> [] then Some (takeWhile (\<lambda>c. c \<noteq> 34) after)
         else (case dropWhile (\<lambda>c. c = 34) (rev (tl run)) of
                 [] \<Rightarrow> None
               | c # cs \<Rightarrow> Some [c]))"

fun literal_match :: "jsstring \<Rightarrow> jsstring \<Rightarrow> jsstring option" where
  "literal_match lit [] = None"
| "literal_match lit (c # cs) =
     (case (if starts_with (c # cs) lit then sep_then_group (drop (length lit) (c # cs)) else None) of
        Some g \<Rightarrow> Some g
      | None \<Rightarrow> literal_match lit cs)"

text \<open>
  The result \<open>{cypherQuery, explanation}\<close>. Its declared type has two strings, but the
  JSON strategy returns whatever truthy value the answer's JSON holds, so both fields are
  JSON values.
\<close>

record synthesized =
  cypherQuery :: json
  explanation :: json

text \<open>The three fixed explanation texts of the function (lines 468, 487 and 496).\<close>

definition no_explanation :: jsstring where
  "no_explanation = [26410, 25552, 20379, 26597, 35810, 35299, 37322]"

definition parse_fallback_explanation :: jsstring where
  "parse_fallback_explanation =
     [26080, 27861, 20174] @ js ''LLM'' @ [21709, 24212, 20013, 25552, 21462, 26377, 25928,
      30340, 26597, 35810, 12290, 20351, 29992, 40664, 35748, 26597, 35810, 12290]"

definition error_fallback_explanation :: jsstring where
  "error_fallback_explanation =
     [22788, 29702, 24744, 30340, 38382, 39064, 26102, 36935, 21040, 38169, 35823, 12290, 35831,
      26816, 26597, 24744, 30340] @ js ''OpenAI API'' @ [23494, 38053, 21644, 36830, 25509,
      35774, 32622, 26159, 21542, 27491, 30830, 12290]"

text \<open>
  Lines 441-469, the \<open>try\<close> block: \<open>Inl\<close> is an exception thrown inside it
  (\<open>SyntaxError\<close> of \<open>JSON.parse\<close>, \<open>TypeError\<close> of a property read on \<open>null\<close>, or the
  \<open>Error\<close> of line 463).
\<close>

definition try_parse_json :: "jsstring \<Rightarrow> jsstring + synthesized" where
  "try_parse_json content =
     (let jsonContent = (case jsonBlockMatch content of Some g \<Rightarrow> g | None \<Rightarrow> content);
          jsonContent2 = (case jsonMatch jsonContent of Some m \<Rightarrow> m | None \<Rightarrow> jsonContent)
      in case JSON_parse jsonContent2 of
           None \<Rightarrow> Inl (js ''SyntaxError'')
         | Some parsedResponse \<Rightarrow>
             (case get_property parsedResponse (js ''cypherQuery'') of
                Inl e \<Rightarrow> Inl e
              | Inr None \<Rightarrow> Inl (js ''Response does not contain a Cypher query'')
              | Inr (Some q) \<Rightarrow>
                  if \<not> truthy (Some q) then Inl (js ''Response does not contain a Cypher query'')
                  else
                    (case get_property parsedResponse (js ''explanation'') of
                       Inl e \<Rightarrow> Inl e
                     | Inr ex \<Rightarrow>
                         Inr \<lparr>cypherQuery = q,
                              explanation = (case ex of
                                               Some v \<Rightarrow> if truthy (Some v) then v else JString no_explanation
                                             | None \<Rightarrow> JString no_explanation)\<rparr>)))"

text \<open>Lines 440-489: the \<open>try\<close> block and its \<open>catch\<close>, which falls back to the two
  literal patterns and then to the default query.\<close>

definition parse_content :: "jsstring \<Rightarrow> synthesized" where
  "parse_content content =
     (case try_parse_json content of
        Inr r \<Rightarrow> r
      | Inl error \<Rightarrow>
          (case literal_match (js ''cypherQuery'') content of
             Some g \<Rightarrow>
               \<lparr>cypherQuery = JString (trim g),
                explanation = (case literal_match (js ''explanation'') content of
                                 Some e \<Rightarrow> JString (trim e)
                               | None \<Rightarrow> JString no_explanation)\<rparr>
           | None \<Rightarrow>
               \<lparr>cypherQuery = JString (js ''MATCH (n) RETURN n LIMIT 25''),
                explanation = JString parse_fallback_explanation\<rparr>))"

text \<open>The response body of the parsing scenario, and two further answers.\<close>

definition json_text :: jsstring where
  \<open>json_text = js ''{"cypherQuery":"MATCH (n) RETURN n","explanation":"x"}''\<close>

definition fenced_body :: jsstring where
  "fenced_body = js ''Here is the answer:'' @ [10] @ fence @ js ''json'' @ [10] @ json_text @ [10] @ fence"


section \<open>Database values and query results (src/lib/types, src/lib/neo4j.ts)\<close>

text \<open>
  The values a record field of the driver can hold. A node or relationship carries its
  identity as the driver's integer, whose \<open>toString()\<close> the code stores as the id.
  Floating-point numbers, paths and temporal values are left out: no operation modelled
  here looks into them.
\<close>

datatype dbvalue =
    VNull
  | VBool bool
  | VInt int
  | VString jsstring
  | VList "dbvalue list"
  | VMap "(jsstring \<times> dbvalue) list"
  | VNode int "jsstring list" "(jsstring \<times> dbvalue) list"
  | VRel int jsstring int int "(jsstring \<times> dbvalue) list"

type_synonym props = "(jsstring \<times> dbvalue) list"

text \<open>
  \<open>Neo4jResult\<close>. The fields that the code guards with \<open>&&\<close> or \<open>||\<close> before use
  (\<open>node.labels\<close>, \<open>node.properties\<close>, \<open>rel.properties\<close>) are optional in the model, so
  that the guard is a branch of it; \<open>None\<close> stands for \<open>undefined\<close>/\<open>null\<close>.
\<close>

record neo4j_node =
  node_id :: jsstring
  node_labels :: "jsstring list option"
  node_properties :: "props option"

record neo4j_rel =
  rel_id :: jsstring
  rel_type :: jsstring
  rel_startNodeId :: jsstring
  rel_endNodeId :: jsstring
  rel_properties :: "props option"

record neo4j_result =
  nodes :: "neo4j_node list"
  relationships :: "neo4j_rel list"

text \<open>
  What \<open>transformNeo4jResultToGraphData\<close> can be handed at run time: nothing at all
  (\<open>null\<close>/\<open>undefined\<close>), or an object whose \<open>nodes\<close> or \<open>relationships\<close> may be missing.
\<close>

record raw_result =
  raw_nodes :: "neo4j_node list option"
  raw_relationships :: "neo4j_rel list option"

definition raw_of :: "neo4j_result \<Rightarrow> raw_result option" where
  "raw_of r = Some \<lparr>raw_nodes = Some (nodes r), raw_relationships = Some (relationships r)\<rparr>"

text \<open>
  \<open>GraphData\<close>. A link's \<open>source\<close> and \<open>target\<close> are node indices; \<open>None\<close> is the
  JavaScript \<open>undefined\<close> that a failed lookup in \<open>nodeIdMap\<close> yields. The links built by
  the transformation carry \<open>label\<close> and \<open>properties\<close>, the ones the route handler adds by
  hand carry \<open>type\<close> and \<open>id\<close>.
\<close>

record graph_node =
  gnode_id :: jsstring
  gnode_label :: jsstring
  gnode_properties :: props

record graph_link =
  link_source :: "nat option"
  link_target :: "nat option"
  link_label :: "jsstring option"
  link_properties :: "props option"
  link_type :: "jsstring option"
  link_id :: "jsstring option"

record graph_data =
  gnodes :: "graph_node list"
  glinks :: "graph_link list"

subsection \<open>transformNeo4jResultToGraphData (src/lib/neo4j.ts, lines 185-218)\<close>

definition transform_node :: "neo4j_node \<Rightarrow> graph_node" where
  "transform_node node =
     \<lparr>gnode_id = node_id node,
      gnode_label = (case node_labels node of
                       Some (l # ls) \<Rightarrow> l
                     | _ \<Rightarrow> js ''Node''),
      gnode_properties = (case node_properties node of Some p \<Rightarrow> p | None \<Rightarrow> [])\<rparr>"

text \<open>
  \<open>nodes.forEach((node, index) => { nodeIdMap[node.id] = index })\<close>: a later node with
  the same id overwrites the entry of an earlier one. The ids are the decimal identities
  of the database, so none of them is the name of a member that the object \<open>nodeIdMap\<close>
  inherits (such as \<open>constructor\<close>), and a lookup finds what was stored or nothing.
\<close>

definition build_nodeIdMap :: "graph_node list \<Rightarrow> (jsstring \<rightharpoonup> nat)" where
  "build_nodeIdMap ns =
     fold (\<lambda>(index, node) m. m(gnode_id node \<mapsto> index)) (enumerate 0 ns) Map.empty"

definition transform_rel :: "(jsstring \<rightharpoonup> nat) \<Rightarrow> neo4j_rel \<Rightarrow> graph_link" where
  "transform_rel nodeIdMap rel =
     \<lparr>link_source = nodeIdMap (rel_startNodeId rel),
      link_target = nodeIdMap (rel_endNodeId rel),
      link_label = Some (if rel_type rel = [] then js ''RELATED_TO'' else rel_type rel),
      link_properties = Some (case rel_properties rel of Some p \<Rightarrow> p | None \<Rightarrow> []),
      link_type = None,
      link_id = None\<rparr>"

definition transformNeo4jResultToGraphData :: "raw_result option \<Rightarrow> graph_data" where
  "transformNeo4jResultToGraphData result =
     (case result of
        None \<Rightarrow> \<lparr>gnodes = [], glinks = []\<rparr>
      | Some r \<Rightarrow>
          (case raw_nodes r of
             None \<Rightarrow> \<lparr>gnodes = [], glinks = []\<rparr>
           | Some ns \<Rightarrow>
               (case raw_relationships r of
                  None \<Rightarrow> \<lparr>gnodes = [], glinks = []\<rparr>
                | Some rs \<Rightarrow>
                    (let nodes' = map transform_node ns;
                         nodeIdMap = build_nodeIdMap nodes';
                         links = map (transform_rel nodeIdMap) rs
                     in \<lparr>gnodes = nodes', glinks = links\<rparr>))))"

text \<open>The input of the scenario: three nodes, two relationships between them and one
  relationship whose end node id \<open>4\<close> is not among the nodes.\<close>

definition mk_node :: "string \<Rightarrow> neo4j_node" where
  "mk_node i = \<lparr>node_id = js i, node_labels = Some [js ''Person''], node_properties = Some []\<rparr>"

definition mk_rel :: "string \<Rightarrow> string \<Rightarrow> string \<Rightarrow> neo4j_rel" where
  "mk_rel i s e =
     \<lparr>rel_id = js i, rel_type = js ''KNOWS'', rel_startNodeId = js s, rel_endNodeId = js e,
      rel_properties = Some []\<rparr>"

definition dangling_input :: neo4j_result where
  "dangling_input =
     \<lparr>nodes = [mk_node ''1'', mk_node ''2'', mk_node ''3''],
      relationships = [mk_rel ''10'' ''1'' ''2'', mk_rel ''11'' ''2'' ''3'', mk_rel ''12'' ''3'' ''4'']\<rparr>"

section \<open>Effects: the database driver and the LLM provider\<close>

text \<open>
  The handler talks to two collaborators, the graph database (through the driver's
  sessions) and the LLM provider. Every call to one of them is an event; the run of a
  function is the list of events it caused, in order. What a call answers may depend on
  everything that happened before it, so the collaborators are functions of the events so
  far and of the request. A thrown \<open>Error\<close> (a rejected promise) is its message.
\<close>

record config =
  uri :: "jsstring option"
  username :: "jsstring option"
  password :: "jsstring option"

datatype role = System | User | Assistant

record schema =
  nodeLabels :: "dbvalue list"
  relationshipTypes :: "dbvalue list"

type_synonym node_props = "(jsstring \<times> jsstring list) list"

text \<open>
  The content of a conversation message: the text the caller sent, and the notes that the
  handler adds to the system message (lines 117-142), kept as symbols for the template
  texts they are built from.
\<close>

datatype text_part =
    Text jsstring
  | Welcome
  | SchemaInfo schema node_props
  | DirectionNote

record message =
  role :: role
  content :: "text_part list"

text \<open>
  The chat completion request of lines 418-423. The system prompt is built from the
  schema and the node properties; the request carries those two instead of the prompt text.
\<close>

record llm_request =
  req_model :: jsstring
  req_baseURL :: jsstring
  req_apiKey :: jsstring
  req_schema :: schema
  req_nodeProperties :: node_props
  req_messages :: "message list"

type_synonym dbrecord = "(jsstring \<times> dbvalue) list"

datatype event =
    GetDriver "config option"
  | SessionRun jsstring
  | SessionClose
  | ChatCompletion llm_request

text \<open>
  The collaborators. \<open>getDriver\<close> (src/lib/neo4j.ts lines 9-96, the connection pool) is
  taken as one of them: it resolves, or rejects with a message. \<open>completion_result\<close>
  gives the \<open>content\<close> of each choice of the answer (\<open>None\<close> for \<open>null\<close>).
  \<open>random_suffix\<close> is what \<open>Math.random().toString(36).substring(2, 10)\<close> gives.
\<close>

record env =
  getDriver_result :: "event list \<Rightarrow> config option \<Rightarrow> jsstring option"
  run_result :: "event list \<Rightarrow> jsstring \<Rightarrow> jsstring + dbrecord list"
  close_result :: "event list \<Rightarrow> jsstring option"
  completion_result :: "event list \<Rightarrow> llm_request \<Rightarrow> jsstring + jsstring option list"
  env_OPENAI_API_KEY :: "jsstring option"
  env_OPENAI_BASE_URL :: "jsstring option"
  random_suffix :: jsstring

type_synonym 'a io = "event list \<Rightarrow> (jsstring + 'a) \<times> event list"

definition io_return :: "'a \<Rightarrow> 'a io" where
  "io_return x = (\<lambda>t. (Inr x, t))"

definition io_throw :: "jsstring \<Rightarrow> 'a io" where
  "io_throw e = (\<lambda>t. (Inl e, t))"

definition io_lift :: "jsstring + 'a \<Rightarrow> 'a io" where
  "io_lift r = (\<lambda>t. (r, t))"

definition io_bind :: "'a io \<Rightarrow> ('a \<Rightarrow> 'b io) \<Rightarrow> 'b io" where
  "io_bind m f = (\<lambda>t. case m t of (Inl e, t1) \<Rightarrow> (Inl e, t1) | (Inr x, t1) \<Rightarrow> f x t1)"

text \<open>\<open>try { m } catch (e) { h e }\<close>.\<close>

definition io_catch :: "'a io \<Rightarrow> (jsstring \<Rightarrow> 'a io) \<Rightarrow> 'a io" where
  "io_catch m h = (\<lambda>t. case m t of (Inl e, t1) \<Rightarrow> h e t1 | (Inr x, t1) \<Rightarrow> (Inr x, t1))"

text \<open>\<open>try { m } finally { c }\<close>: an exception of \<open>c\<close> replaces the outcome of \<open>m\<close>.\<close>

definition io_finally :: "'a io \<Rightarrow> unit io \<Rightarrow> 'a io" where
  "io_finally m c =
     (\<lambda>t. case m t of
             (r, t1) \<Rightarrow> (case c t1 of (Inl e, t2) \<Rightarrow> (Inl e, t2) | (Inr u, t2) \<Rightarrow> (r, t2)))"

text \<open>
  The shape shared by \<open>executeQuery\<close>, \<open>getGraphSchema\<close> and \<open>getNodeProperties\<close>:
  \<open>try { await getDriver(..); session = driver.session(); body } catch (e) { handler }
  finally { if (session) closer }\<close>. When \<open>getDriver\<close> rejects, \<open>session\<close> is still
  \<open>null\<close> and the \<open>finally\<close> block does nothing.
\<close>

definition try_with_session :: "unit io \<Rightarrow> 'a io \<Rightarrow> (jsstring \<Rightarrow> 'a io) \<Rightarrow> unit io \<Rightarrow> 'a io" where
  "try_with_session acquire body handler closer =
     (\<lambda>t. case acquire t of
             (Inl e, t1) \<Rightarrow> handler e t1
           | (Inr u, t1) \<Rightarrow> io_finally (io_catch body handler) closer t1)"

definition getDriver :: "env \<Rightarrow> config option \<Rightarrow> unit io" where
  "getDriver env customConfig =
     (\<lambda>t. ((case getDriver_result env t customConfig of Some e \<Rightarrow> Inl e | None \<Rightarrow> Inr ()),
           t @ [GetDriver customConfig]))"

definition session_run :: "env \<Rightarrow> jsstring \<Rightarrow> dbrecord list io" where
  "session_run env query = (\<lambda>t. (run_result env t query, t @ [SessionRun query]))"

definition session_close :: "env \<Rightarrow> unit io" where
  "session_close env =
     (\<lambda>t. ((case close_result env t of Some e \<Rightarrow> Inl e | None \<Rightarrow> Inr ()), t @ [SessionClose]))"

definition chat_completion :: "env \<Rightarrow> llm_request \<Rightarrow> jsstring option list io" where
  "chat_completion env req = (\<lambda>t. (completion_result env t req, t @ [ChatCompletion req]))"

section \<open>The database functions (src/lib/neo4j.ts)\<close>

text \<open>\<open>identity.toString()\<close> of the driver's integers: the decimal numeral.\<close>

fun digits_of :: "nat \<Rightarrow> jsstring" where
  "digits_of n = (if n < 10 then [48 + n] else digits_of (n div 10) @ [48 + n mod 10])"

declare digits_of.simps [simp del]

definition int_toString :: "int \<Rightarrow> jsstring" where
  "int_toString i = (if i < 0 then 45 # digits_of (nat (- i)) else digits_of (nat i))"

subsection \<open>executeQuery (lines 112-183)\<close>

text \<open>
  The two passes over the field values of all records: the first collects the nodes, the
  second the relationships, each keeping the first value of an identity.
\<close>

definition node_of :: "dbvalue \<Rightarrow> neo4j_node option" where
  "node_of v =
     (case v of
        VNode i ls ps \<Rightarrow>
          Some \<lparr>node_id = int_toString i, node_labels = Some ls, node_properties = Some ps\<rparr>
      | _ \<Rightarrow> None)"

definition rel_of :: "dbvalue \<Rightarrow> neo4j_rel option" where
  "rel_of v =
     (case v of
        VRel i ty s e ps \<Rightarrow>
          Some \<lparr>rel_id = int_toString i, rel_type = ty, rel_startNodeId = int_toString s,
                rel_endNodeId = int_toString e, rel_properties = Some ps\<rparr>
      | _ \<Rightarrow> None)"

definition collect_nodes :: "dbrecord list \<Rightarrow> neo4j_node list" where
  "collect_nodes records =
     fold (\<lambda>v acc. case node_of v of
                      Some n \<Rightarrow> if node_id n \<in> node_id ` set acc then acc else acc @ [n]
                    | None \<Rightarrow> acc)
       (map snd (concat records)) []"

definition collect_rels :: "dbrecord list \<Rightarrow> neo4j_rel list" where
  "collect_rels records =
     fold (\<lambda>v acc. case rel_of v of
                      Some r \<Rightarrow> if rel_id r \<in> rel_id ` set acc then acc else acc @ [r]
                    | None \<Rightarrow> acc)
       (map snd (concat records)) []"

definition executeQuery :: "env \<Rightarrow> jsstring \<Rightarrow> config option \<Rightarrow> neo4j_result io" where
  "executeQuery env query customConfig =
     try_with_session (getDriver env customConfig)
       (io_bind (session_run env query) (\<lambda>records.
          io_return \<lparr>nodes = collect_nodes records, relationships = collect_rels records\<rparr>))
       (\<lambda>error. io_throw (js ''Database query failed: '' @ error))
       (io_catch (session_close env) (\<lambda>error. io_return ()))"

subsection \<open>getGraphSchema (lines 220-253)\<close>

definition empty_schema :: schema where
  "empty_schema = \<lparr>nodeLabels = [], relationshipTypes = []\<rparr>"

text \<open>\<open>record.get(0)\<close>, which throws on a record without fields, and \<open>records.map(f)\<close> for
  an \<open>f\<close> that may throw.\<close>

definition record_get0 :: "dbrecord \<Rightarrow> jsstring + dbvalue" where
  "record_get0 r =
     (case r of
        [] \<Rightarrow> Inl (js ''This record has no field with index 0'')
      | kv # kvs \<Rightarrow> Inr (snd kv))"

fun map_throwing :: "('a \<Rightarrow> jsstring + 'b) \<Rightarrow> 'a list \<Rightarrow> jsstring + 'b list" where
  "map_throwing f [] = Inr []"
| "map_throwing f (x # xs) =
     (case f x of
        Inl e \<Rightarrow> Inl e
      | Inr y \<Rightarrow> (case map_throwing f xs of Inl e \<Rightarrow> Inl e | Inr ys \<Rightarrow> Inr (y # ys)))"

definition getGraphSchema :: "env \<Rightarrow> config option \<Rightarrow> schema io" where
  "getGraphSchema env customConfig =
     try_with_session (getDriver env customConfig)
       (io_bind (session_run env (js ''CALL db.labels()'')) (\<lambda>labelsResult.
        io_bind (io_lift (map_throwing record_get0 labelsResult)) (\<lambda>labels.
        io_bind (session_run env (js ''CALL db.relationshipTypes()'')) (\<lambda>relTypesResult.
        io_bind (io_lift (map_throwing record_get0 relTypesResult)) (\<lambda>types.
        io_return \<lparr>nodeLabels = labels, relationshipTypes = types\<rparr>)))))
       (\<lambda>error. io_return empty_schema)
       (session_close env)"

subsection \<open>getNodeProperties (lines 256-294)\<close>

text \<open>
  The text of a label inside the template of line 271 and as a property name. The labels
  that \<open>db.labels()\<close> lists are strings; the text is also right for \<open>null\<close>, booleans and
  integers, and is not modelled for the other values.
\<close>

definition label_text :: "dbvalue \<Rightarrow> jsstring" where
  "label_text v =
     (case v of
        VString s \<Rightarrow> s
      | VNull \<Rightarrow> js ''null''
      | VBool b \<Rightarrow> (if b then js ''true'' else js ''false'')
      | VInt i \<Rightarrow> int_toString i
      | _ \<Rightarrow> js ''[object Object]'')"

text \<open>\<open>obj[k] = v\<close> on an object kept as a list of its members in insertion order.\<close>

fun assign :: "jsstring \<Rightarrow> 'v \<Rightarrow> (jsstring \<times> 'v) list \<Rightarrow> (jsstring \<times> 'v) list" where
  "assign k v [] = [(k, v)]"
| "assign k v (kv # kvs) = (if fst kv = k then (k, v) # kvs else kv # assign k v kvs)"

text \<open>
  Lines 273-278 for the records of one label: \<open>records[0].get("n")\<close> throws when the
  record has no such field, and reading \<open>properties\<close> of a value that is not an entity
  gives nothing whose keys could be listed (the \<open>catch\<close> of line 279 then stores \<open>[]\<close>).
  A map with a member called \<open>properties\<close> is treated like the other values; the query
  of line 271 returns a node.
\<close>

definition first_node_keys :: "dbrecord list \<Rightarrow> jsstring + jsstring list" where
  "first_node_keys records =
     (case records of
        [] \<Rightarrow> Inr []
      | r # rs \<Rightarrow>
          (case map_of r (js ''n'') of
             None \<Rightarrow> Inl (js ''This record has no field with key n'')
           | Some (VNode i ls ps) \<Rightarrow> Inr (map fst ps)
           | Some (VRel i ty s e ps) \<Rightarrow> Inr (map fst ps)
           | Some v \<Rightarrow> Inl (js ''TypeError: Cannot convert undefined or null to object'')))"

fun properties_loop :: "env \<Rightarrow> dbvalue list \<Rightarrow> node_props \<Rightarrow> node_props io" where
  "properties_loop env [] nodeProperties = io_return nodeProperties"
| "properties_loop env (label # labels) nodeProperties =
     io_bind
       (io_catch
          (io_bind (session_run env (js ''MATCH (n:'' @ label_text label @ js '') RETURN n LIMIT 1''))
             (\<lambda>records. io_lift (first_node_keys records)))
          (\<lambda>error. io_return []))
       (\<lambda>keys. properties_loop env labels (assign (label_text label) keys nodeProperties))"

definition getNodeProperties :: "env \<Rightarrow> config option \<Rightarrow> node_props io" where
  "getNodeProperties env customConfig =
     try_with_session (getDriver env customConfig)
       (io_bind (getGraphSchema env customConfig) (\<lambda>s. properties_loop env (nodeLabels s) []))
       (\<lambda>error. io_return [])
       (session_close env)"

section \<open>The query synthesizer: generateCypherQuery (src/lib/neo4j.ts lines 348-499)\<close>

text \<open>\<open>a || d\<close> for an optional string \<open>a\<close>: \<open>undefined\<close>, \<open>null\<close> and the empty string are
  falsy.\<close>

definition falsy :: "jsstring option \<Rightarrow> bool" where
  "falsy a \<longleftrightarrow> a = None \<or> a = Some []"

definition str_or :: "jsstring option \<Rightarrow> jsstring \<Rightarrow> jsstring" where
  "str_or a d = (case a of None \<Rightarrow> d | Some s \<Rightarrow> if s = [] then d else s)"

definition default_query :: jsstring where
  "default_query = js ''MATCH (n) RETURN n LIMIT 25''"

text \<open>The chat completion request of lines 398-423, with the defaults for the key, the
  endpoint and the model.\<close>

definition completion_request ::
    "env \<Rightarrow> message list \<Rightarrow> schema \<Rightarrow> node_props \<Rightarrow> jsstring option \<Rightarrow> jsstring option
       \<Rightarrow> jsstring option \<Rightarrow> llm_request" where
  "completion_request env messages schema nodeProperties apiKey baseUrl modelName =
     \<lparr>req_model = str_or modelName (js ''gpt-4''),
      req_baseURL = str_or baseUrl (str_or (env_OPENAI_BASE_URL env) (js ''https://api.openai.com/v1'')),
      req_apiKey = str_or apiKey (str_or (env_OPENAI_API_KEY env) []),
      req_schema = schema, req_nodeProperties = nodeProperties, req_messages = messages\<rparr>"

definition generateCypherQuery ::
    "env \<Rightarrow> message list \<Rightarrow> schema \<Rightarrow> node_props \<Rightarrow> jsstring option \<Rightarrow> jsstring option
       \<Rightarrow> jsstring option \<Rightarrow> synthesized io" where
  "generateCypherQuery env messages schema nodeProperties apiKey baseUrl modelName =
     io_catch
       (let request = completion_request env messages schema nodeProperties apiKey baseUrl modelName
        in if req_apiKey request = [] then io_throw (js ''OpenAI API key is required'')
           else
             io_bind (chat_completion env request)
               (\<lambda>choices.
                  case choices of
                    [] \<Rightarrow> io_throw (js ''No response from OpenAI API'')
                  | c # cs \<Rightarrow>
                      if falsy c then io_throw (js ''Empty response from OpenAI API'')
                      else io_return (parse_content (str_or c []))))
       (\<lambda>error. io_return \<lparr>cypherQuery = JString default_query,
                             explanation = JString error_fallback_explanation\<rparr>)"

section \<open>The chat route: POST (src/app/api/chat/route.ts)\<close>

record request_body =
  messages :: "message list option"
  openaiApiKey :: "jsstring option"
  openaiBaseUrl :: "jsstring option"
  neo4jUri :: "jsstring option"
  neo4jUsername :: "jsstring option"
  neo4jPassword :: "jsstring option"
  modelName :: "jsstring option"

record table_data =
  columns :: "jsstring list"
  rows :: "dbrecord list"

text \<open>
  The \<open>message\<close> of a response. The texts of the validation errors are given in full.
  The other messages are templates filled with an error message or with the explanation,
  the table and the counts (lines 485-525); they are kept as the values they are filled
  with.
\<close>

datatype reply =
    Reply_text jsstring
  | Reply_query_error jsstring
  | Reply_request_error jsstring
  | Reply_answer json "table_data option" nat nat

text \<open>
  The response. \<open>convertGraphDataForResponse\<close> only turns the indices of the links into
  their decimal strings; the response keeps the graph with the indices.
\<close>

record response =
  status :: nat
  reply_message :: reply
  graphData :: "graph_data option"
  tableData :: "table_data option"

definition messages_required :: jsstring where
  "messages_required = js ''Invalid request: messages array is required''"

definition api_key_missing :: jsstring where
  "api_key_missing =
     js ''OpenAI API'' @ [23494, 38053, 26410, 25552, 20379, 12290, 35831, 22312, 24212, 29992,
       35774, 32622, 20013, 37197, 32622, 26377, 25928, 30340] @ js ''API'' @ [23494, 38053, 12290]"


definition neo4j_params_missing :: jsstring where
  "neo4j_params_missing =
     js ''Neo4j'' @ [25968, 25454, 24211, 36830, 25509, 21442, 25968, 19981, 23436, 25972, 12290,
       35831, 22312, 24212, 29992, 35774, 32622, 20013, 37197, 32622, 25968, 25454, 24211]
     @ js ''URI'' @ [12289, 29992, 25143, 21517, 21644, 23494, 30721, 12290]"

definition bad_request :: "jsstring \<Rightarrow> response" where
  "bad_request text =
     \<lparr>status = 400, reply_message = Reply_text text, graphData = None, tableData = None\<rparr>"

subsection \<open>Schema information (lines 99-146)\<close>

fun append_to_first_system :: "text_part list \<Rightarrow> message list \<Rightarrow> message list option" where
  "append_to_first_system ps [] = None"
| "append_to_first_system ps (m # ms) =
     (if role m = System then Some (m\<lparr>content := content m @ ps\<rparr> # ms)
      else map_option ((#) m) (append_to_first_system ps ms))"

definition annotate_messages :: "schema \<Rightarrow> node_props \<Rightarrow> message list \<Rightarrow> message list" where
  "annotate_messages s nodeProperties msgs =
     (let msgs1 = (case append_to_first_system [SchemaInfo s nodeProperties] msgs of
                     Some ms \<Rightarrow> ms
                   | None \<Rightarrow> \<lparr>role = System, content = [Welcome, SchemaInfo s nodeProperties]\<rparr> # msgs)
      in case append_to_first_system [DirectionNote] msgs1 of
           Some ms \<Rightarrow> ms
         | None \<Rightarrow> msgs1)"

text \<open>
  The \<open>try\<close> block of lines 104-146 assigns \<open>schema\<close>, then \<open>nodeProperties\<close>, then
  rewrites \<open>messages\<close>; its \<open>catch\<close> goes on with what has been assigned so far.
\<close>

definition schema_stage ::
    "env \<Rightarrow> config option \<Rightarrow> message list \<Rightarrow> event list
       \<Rightarrow> (schema \<times> node_props \<times> message list) \<times> event list" where
  "schema_stage env neo4jConfig msgs t =
     (case getGraphSchema env neo4jConfig t of
        (Inl error, t1) \<Rightarrow> ((empty_schema, [], msgs), t1)
      | (Inr s, t1) \<Rightarrow>
          (case getNodeProperties env neo4jConfig t1 of
             (Inl error, t2) \<Rightarrow> ((s, [], msgs), t2)
           | (Inr nodeProperties, t2) \<Rightarrow>
               ((s, nodeProperties, annotate_messages s nodeProperties msgs), t2)))"

subsection \<open>Query generation (lines 148-283)\<close>

definition character_query :: jsstring where
  "character_query = js ''MATCH (n:Character) RETURN n LIMIT 25''"

definition route_fallback_explanation :: jsstring where
  "route_fallback_explanation =
     [26080, 27861, 20174] @ js ''LLM'' @ [21709, 24212, 20013, 25552, 21462, 26377, 25928, 30340,
      26597, 35810, 12290, 20351, 29992, 40664, 35748, 26597, 35810, 36820, 22238, 35282, 33394,
      33410, 28857, 12290]"

definition route_no_explanation :: jsstring where
  "route_no_explanation = [26410, 25552, 20379, 26597, 35810, 35299, 37322, 12290]"

definition unknown_error :: jsstring where
  "unknown_error = [26410, 30693, 38169, 35823]"

definition generation_error_explanation :: "jsstring \<Rightarrow> jsstring" where
  "generation_error_explanation error =
     [29983, 25104, 26597, 35810, 26102, 20986, 38169, 65306]
     @ (if error = [] then unknown_error else error)
     @ [12290, 20351, 29992, 40664, 35748, 26597, 35810, 36820, 22238, 35282, 33394, 33410,
        28857, 12290]"

text \<open>
  \<open>generateCypherQuery\<close> returns an object, so of the three shapes that lines 177-263
  tell apart only the last applies (line 257): \<open>result.cypherQuery || null\<close> and
  \<open>result.explanation || null\<close>, then the defaults of lines 266-274.
\<close>

definition synthesis_stage ::
    "env \<Rightarrow> message list \<Rightarrow> schema \<Rightarrow> node_props \<Rightarrow> request_body \<Rightarrow> event list
       \<Rightarrow> (json \<times> json) \<times> event list" where
  "synthesis_stage env msgs s nodeProperties body t =
     (case generateCypherQuery env msgs s nodeProperties (openaiApiKey body) (openaiBaseUrl body)
             (modelName body) t of
        (Inl error, t1) \<Rightarrow>
          ((JString character_query, JString (generation_error_explanation error)), t1)
      | (Inr result, t1) \<Rightarrow>
          (if \<not> truthy (Some (cypherQuery result))
           then ((JString character_query, JString route_fallback_explanation), t1)
           else ((cypherQuery result,
                  if truthy (Some (explanation result)) then explanation result
                  else JString route_no_explanation), t1)))"

subsection \<open>Executing the query (lines 292-443)\<close>

text \<open>
  Lines 302-322: every relationship of the first result gets defaults for a missing id,
  type and property map. The relationships that \<open>executeQuery\<close> builds have neither
  \<open>startNodeIdentity\<close> nor \<open>start\<close>, so the node ids stay as they are; their ids are
  decimal numerals and never empty, so the random id is never needed (the model would
  give the same suffix to every relationship that needs one).
\<close>

definition repair_relationships :: "env \<Rightarrow> neo4j_result \<Rightarrow> neo4j_result" where
  "repair_relationships env r =
     r\<lparr>relationships :=
          map (\<lambda>rel. rel\<lparr>rel_id := (if rel_id rel = [] then js ''rel-'' @ random_suffix env
                                        else rel_id rel),
                           rel_type := (if rel_type rel = [] then js ''unknown'' else rel_type rel),
                           rel_properties := Some (case rel_properties rel of
                                                     Some p \<Rightarrow> p
                                                   | None \<Rightarrow> [])\<rparr>)
            (relationships r)\<rparr>"

text \<open>
  Lines 324-341: the retries after a first result without nodes. Each assignment to
  \<open>neo4jResult\<close> replaces the result before it.
\<close>

definition arrow :: jsstring where
  "arrow = js ''->''"

definition execute_with_retries :: "env \<Rightarrow> config option \<Rightarrow> jsstring \<Rightarrow> neo4j_result io" where
  "execute_with_retries env neo4jConfig q =
     io_bind (executeQuery env q neo4jConfig) (\<lambda>r0.
       let r1 = repair_relationships env r0
       in if nodes r1 = [] then
            io_bind (if js_includes q arrow then executeQuery env (reversedQuery q) neo4jConfig
                     else io_return r1) (\<lambda>r2.
              if nodes r2 = [] \<and> js_includes q arrow
              then executeQuery env (undirectedQuery q) neo4jConfig
              else io_return r2)
          else io_return r1)"

text \<open>
  Lines 357-390: when the transformed graph has no link although the result has
  relationships, links are added by hand, skipping a relationship with an empty node id
  and one whose node is not found.
\<close>

definition manual_link :: "(jsstring \<rightharpoonup> nat) \<Rightarrow> neo4j_rel \<Rightarrow> graph_link list" where
  "manual_link nodeIdMap rel =
     (if rel_startNodeId rel = [] \<or> rel_endNodeId rel = [] then []
      else
        (case (nodeIdMap (rel_startNodeId rel), nodeIdMap (rel_endNodeId rel)) of
           (Some sourceIndex, Some targetIndex) \<Rightarrow>
             [\<lparr>link_source = Some sourceIndex, link_target = Some targetIndex, link_label = None,
               link_properties = None,
               link_type = Some (if rel_type rel = [] then js ''unknown'' else rel_type rel),
               link_id = Some (if rel_id rel = []
                               then js ''rel-'' @ digits_of sourceIndex @ js ''-'' @ digits_of targetIndex
                               else rel_id rel)\<rparr>]
         | _ \<Rightarrow> []))"

definition add_manual_links :: "neo4j_result \<Rightarrow> graph_data \<Rightarrow> graph_data" where
  "add_manual_links r g =
     (if glinks g = [] \<and> relationships r \<noteq> []
      then g\<lparr>glinks := concat (map (manual_link (build_nodeIdMap (gnodes g))) (relationships r))\<rparr>
      else g)"

text \<open>
  Line 404: \<open>cypherQuery.replace(/RETURN\s+([^,]+),\s*r,\s*([^,]+)/i, 'RETURN $1, $2')\<close>,
  the first match only. \<open>node_only_at\<close> matches at the start of its argument and gives
  the two groups and the text behind the match. Group 1 is the text between the white
  space and the next comma; when there is none, the white space gives back its last code
  unit to the group. Group 2 is found the same way behind \<open>r,\<close>.
\<close>

definition not_comma :: "nat \<Rightarrow> bool" where
  "not_comma c \<longleftrightarrow> c \<noteq> 44"

definition node_only_at :: "jsstring \<Rightarrow> (jsstring \<times> jsstring \<times> jsstring) option" where
  "node_only_at s =
     (if toLowerCase (take 6 s) \<noteq> js ''return'' then None
      else
        let ws = takeWhile is_space (drop 6 s);
            r1 = dropWhile is_space (drop 6 s);
            run1 = takeWhile not_comma r1;
            g1 = (if run1 \<noteq> [] then run1 else if 2 \<le> length ws then [last ws] else []);
            r2 = dropWhile not_comma r1
        in if ws = [] \<or> g1 = [] \<or> r2 = [] then None
           else
             (case dropWhile is_space (tl r2) of
                [] \<Rightarrow> None
              | x # r4 \<Rightarrow>
                  if x \<noteq> 114 \<and> x \<noteq> 82 then None
                  else
                    (case r4 of
                       [] \<Rightarrow> None
                     | y # r5 \<Rightarrow>
                         if y \<noteq> 44 then None
                         else
                           let ws2 = takeWhile is_space r5;
                               run2 = takeWhile not_comma (dropWhile is_space r5);
                               g2 = (if run2 \<noteq> [] then run2
                                     else if ws2 \<noteq> [] then [last ws2] else [])
                           in if g2 = [] then None
                              else Some (g1, g2, dropWhile not_comma (dropWhile is_space r5)))))"

fun nodeOnlyQuery :: "jsstring \<Rightarrow> jsstring" where
  "nodeOnlyQuery [] = []"
| "nodeOnlyQuery (c # cs) =
     (case node_only_at (c # cs) of
        Some (g1, g2, rest) \<Rightarrow> js ''RETURN '' @ g1 @ js '', '' @ g2 @ rest
      | None \<Rightarrow> c # nodeOnlyQuery cs)"

text \<open>The outcome of lines 292-443: the handler either returns a response at once, or
  goes on with a result and its graph.\<close>

datatype exec_outcome = Returned response | Continue neo4j_result graph_data

definition query_error_response :: "jsstring \<Rightarrow> response" where
  "query_error_response error =
     \<lparr>status = 200,
      reply_message = Reply_query_error (if error = [] then unknown_error else error),
      graphData = None, tableData = None\<rparr>"

definition virtual_relationship :: "neo4j_node \<Rightarrow> neo4j_node \<Rightarrow> neo4j_rel" where
  "virtual_relationship firstNode secondNode =
     \<lparr>rel_id = js ''virtual-rel-1'', rel_type = wife, rel_startNodeId = node_id firstNode,
      rel_endNodeId = node_id secondNode, rel_properties = Some []\<rparr>"

definition execute_stage :: "env \<Rightarrow> config option \<Rightarrow> jsstring \<Rightarrow> exec_outcome io" where
  "execute_stage env neo4jConfig q =
     io_catch
       (io_bind (execute_with_retries env neo4jConfig q) (\<lambda>r.
          io_return (Continue r (add_manual_links r (transformNeo4jResultToGraphData (raw_of r))))))
       (\<lambda>error.
          if js_includes error (js ''toString'') \<or> js_includes error (js ''startNodeIdentity'')
             \<or> js_includes error (js ''endNodeIdentity'')
          then
            io_catch
              (io_bind (executeQuery env (nodeOnlyQuery q) neo4jConfig) (\<lambda>r.
                 let r' = (case nodes r of
                             firstNode # secondNode # ns \<Rightarrow>
                               r\<lparr>relationships := [virtual_relationship firstNode secondNode]\<rparr>
                           | _ \<Rightarrow> r)
                 in io_return (Continue r' (transformNeo4jResultToGraphData (raw_of r')))))
              (\<lambda>altError. io_return (Returned (query_error_response error)))
          else io_return (Returned (query_error_response error)))"

subsection \<open>The table (lines 445-483)\<close>

definition table_wanted :: "jsstring \<Rightarrow> bool" where
  "table_wanted q \<longleftrightarrow>
     js_includes (toLowerCase q) (js ''return'')
     \<and> (js_includes (toLowerCase q) (js ''.name'') \<or> js_includes (toLowerCase q) (js ''as ''))"

text \<open>
  Truthiness of a database value, for the test \<open>value.properties\<close> on a map that has a
  member of that name; the driver's integers are objects.
\<close>

definition db_truthy :: "dbvalue \<Rightarrow> bool" where
  "db_truthy v = (case v of VNull \<Rightarrow> False | VBool b \<Rightarrow> b | VString s \<Rightarrow> s \<noteq> [] | _ \<Rightarrow> True)"

text \<open>Lines 467-471: a value that is an object with a truthy \<open>properties\<close> is replaced by
  its \<open>properties\<close>.\<close>

definition flatten_cell :: "dbvalue \<Rightarrow> dbvalue" where
  "flatten_cell v =
     (case v of
        VNode i ls ps \<Rightarrow> VMap ps
      | VRel i ty s e ps \<Rightarrow> VMap ps
      | VMap kvs \<Rightarrow> (case map_of (rev kvs) (js ''properties'') of
                      Some p \<Rightarrow> if db_truthy p then p else v
                    | None \<Rightarrow> v)
      | _ \<Rightarrow> v)"

text \<open>\<open>record.get(column)\<close> throws on a record that has no field of that name. The
  field names of a record are distinct, so a row, built by \<open>row[column] = ...\<close> column by
  column, has one cell per column.\<close>

definition record_get :: "dbrecord \<Rightarrow> jsstring \<Rightarrow> jsstring + dbvalue" where
  "record_get r column =
     (case map_of r column of
        None \<Rightarrow> Inl (js ''This record has no field with key '' @ column)
      | Some v \<Rightarrow> Inr v)"

definition table_row :: "jsstring list \<Rightarrow> dbrecord \<Rightarrow> jsstring + dbrecord" where
  "table_row cols r =
     map_throwing (\<lambda>column. case record_get r column of
                              Inl e \<Rightarrow> Inl e
                            | Inr v \<Rightarrow> Inr (column, flatten_cell v)) cols"

definition build_table :: "dbrecord list \<Rightarrow> jsstring + table_data option" where
  "build_table records =
     (case records of
        [] \<Rightarrow> Inr None
      | r # rs \<Rightarrow>
          (case map_throwing (table_row (map fst r)) records of
             Inl e \<Rightarrow> Inl e
           | Inr rws \<Rightarrow> Inr (Some \<lparr>columns = map fst r, rows = rws\<rparr>)))"

definition table_stage ::
    "env \<Rightarrow> config option \<Rightarrow> jsstring \<Rightarrow> event list \<Rightarrow> table_data option \<times> event list" where
  "table_stage env neo4jConfig q t =
     (if table_wanted q then
        (case io_bind (getDriver env neo4jConfig) (\<lambda>driver.
                io_bind (session_run env q) (\<lambda>records.
                io_bind (session_close env) (\<lambda>closed.
                io_lift (build_table records)))) t of
           (Inl tableError, t1) \<Rightarrow> (None, t1)
         | (Inr table, t1) \<Rightarrow> (table, t1))
      else (None, t))"

subsection \<open>The handler (lines 42-548)\<close>

text \<open>
  The request body is \<open>None\<close> when it could not be parsed. A query that is not a string
  (the JSON of the LLM answer may give any truthy value) makes \<open>cypherQuery.includes\<close> of
  line 286 throw, which the outer \<open>catch\<close> answers with status 500; the model does so for
  every value that is not a string.
\<close>

definition answer :: "json \<Rightarrow> neo4j_result \<Rightarrow> graph_data \<Rightarrow> table_data option \<Rightarrow> response" where
  "answer expl r g table =
     \<lparr>status = 200,
      reply_message = Reply_answer expl table (length (nodes r)) (length (relationships r)),
      graphData = (if nodes r \<noteq> [] then Some g else None),
      tableData = table\<rparr>"

definition POST :: "env \<Rightarrow> request_body option \<Rightarrow> event list \<Rightarrow> response \<times> event list" where
  "POST env request t =
     (case request of
        None \<Rightarrow> (bad_request messages_required, t)
      | Some body \<Rightarrow>
          (case messages body of
             None \<Rightarrow> (bad_request messages_required, t)
           | Some msgs \<Rightarrow>
               if falsy (openaiApiKey body) then (bad_request api_key_missing, t)
               else if falsy (neo4jUri body) \<or> falsy (neo4jUsername body) \<or> falsy (neo4jPassword body)
               then (bad_request neo4j_params_missing, t)
               else
                 let neo4jConfig = Some \<lparr>uri = neo4jUri body, username = neo4jUsername body,
                                          password = neo4jPassword body\<rparr>
                 in case schema_stage env neo4jConfig msgs t of
                      ((s, nodeProperties, msgs'), t1) \<Rightarrow>
                        (case synthesis_stage env msgs' s nodeProperties body t1 of
                           ((JString generated, expl), t2) \<Rightarrow>
                             let q = rewrite_wife generated
                             in (case execute_stage env neo4jConfig q t2 of
                                   (Inl error, t3) \<Rightarrow>
                                     (\<lparr>status = 500, reply_message = Reply_request_error error,
                                       graphData = None, tableData = None\<rparr>, t3)
                                 | (Inr (Returned resp), t3) \<Rightarrow> (resp, t3)
                                 | (Inr (Continue r g), t3) \<Rightarrow>
                                     (case table_stage env neo4jConfig q t3 of
                                        (table, t4) \<Rightarrow> (answer expl r g table, t4)))
                         | ((other, expl), t2) \<Rightarrow>
                             (\<lparr>status = 500,
                               reply_message = Reply_request_error (js ''TypeError: cypherQuery.includes is not a function''),
                               graphData = None, tableData = None\<rparr>, t2))))"

section \<open>Example requests and collaborators\<close>

definition example_config :: "config option" where
  "example_config =
     Some \<lparr>uri = Some (js ''bolt://localhost:7687''), username = Some (js ''neo4j''),
           password = Some (js ''secret'')\<rparr>"

text \<open>A request with all three database parameters, and the given messages and LLM key.\<close>

definition example_request :: "message list option \<Rightarrow> jsstring option \<Rightarrow> request_body" where
  "example_request msgs key =
     \<lparr>messages = msgs, openaiApiKey = key, openaiBaseUrl = None,
      neo4jUri = Some (js ''bolt://localhost:7687''), neo4jUsername = Some (js ''neo4j''),
      neo4jPassword = Some (js ''secret''), modelName = None\<rparr>"

text \<open>A reachable, empty database and an LLM that answers with the fenced body.\<close>

definition quiet_env :: env where
  "quiet_env =
     \<lparr>getDriver_result = (\<lambda>t c. None),
      run_result = (\<lambda>t q. Inr []),
      close_result = (\<lambda>t. None),
      completion_result = (\<lambda>t r. Inr [Some fenced_body]),
      env_OPENAI_API_KEY = None,
      env_OPENAI_BASE_URL = None,
      random_suffix = js ''k3x9q2ab''\<rparr>"

definition quiet_llm_request :: llm_request where
  "quiet_llm_request =
     \<lparr>req_model = js ''gpt-4'', req_baseURL = js ''https://api.openai.com/v1'',
      req_apiKey = js ''sk-test'', req_schema = empty_schema, req_nodeProperties = [],
      req_messages = [\<lparr>role = System, content = [Welcome, SchemaInfo empty_schema [], DirectionNote]\<rparr>]\<rparr>"

text \<open>A database outage in which the session cannot even be closed: every query and
  every \<open>close\<close> of a session is rejected.\<close>

definition outage_env :: env where
  "outage_env =
     \<lparr>getDriver_result = (\<lambda>t c. None),
      run_result = (\<lambda>t q. Inl (js ''ServiceUnavailable'')),
      close_result = (\<lambda>t. Some (js ''close failed'')),
      completion_result = (\<lambda>t r. Inr [Some fenced_body]),
      env_OPENAI_API_KEY = None,
      env_OPENAI_BASE_URL = None,
      random_suffix = js ''k3x9q2ab''\<rparr>"

definition user_question :: "message list" where
  "user_question = [\<lparr>role = User, content = [Text (js ''Who knows whom?'')]\<rparr>]"








text \<open>A query that projects a property under an alias next to the whole node, and a
  database that answers it with one record.\<close>

definition name_query :: jsstring where
  "name_query = js ''MATCH (n:Person) RETURN n.name AS name, n''"

definition ann_record :: dbrecord where
  "ann_record =
     [(js ''name'', VString (js ''Ann'')),
      (js ''n'', VNode 1 [js ''Person''] [(js ''name'', VString (js ''Ann''))])]"

definition table_env :: env where
  "table_env =
     \<lparr>getDriver_result = (\<lambda>t c. None),
      run_result = (\<lambda>t q. Inr [ann_record]),
      close_result = (\<lambda>t. None),
      completion_result = (\<lambda>t r. Inl (js ''offline'')),
      env_OPENAI_API_KEY = None,
      env_OPENAI_BASE_URL = None,
      random_suffix = js ''k3x9q2ab''\<rparr>"



definition variable_query :: jsstring where
  "variable_query = js ''MATCH (a)-[r:KNOWS]->(b) RETURN a,r,b''"

text \<open>
  The trigger of the table as the specification words it: the query text contains a
  property access or an \<open>AS\<close> alias. Both are read generously here: any dot counts as a
  property access, and the word \<open>as\<close> between two blanks, in any case, as an alias.
\<close>

definition claimed_trigger :: "jsstring \<Rightarrow> bool" where
  "claimed_trigger q \<longleftrightarrow> 46 \<in> set q \<or> js_includes (toLowerCase q) (js '' as '')"

text \<open>A query that returns a whole node held in a variable called \<open>gas\<close>, and a database
  that answers it with one record.\<close>

definition gas_query :: jsstring where
  "gas_query = js ''MATCH (gas:Fuel) RETURN gas LIMIT 5''"

definition gas_env :: env where
  "gas_env =
     \<lparr>getDriver_result = (\<lambda>t c. None),
      run_result = (\<lambda>t q. Inr [[(js ''gas'', VNode 7 [js ''Fuel''] [(js ''octane'', VInt 95)])]]),
      close_result = (\<lambda>t. None),
      completion_result = (\<lambda>t r. Inl (js ''offline'')),
      env_OPENAI_API_KEY = None,
      env_OPENAI_BASE_URL = None,
      random_suffix = js ''k3x9q2ab''\<rparr>"

section \<open>Properties\<close>

subsection \<open>The graph transformation\<close>

lemma transform_node_id [simp]: "gnode_id (transform_node n) = node_id n"
  by (simp add: transform_node_def)

lemma build_nodeIdMap_snoc:
  "build_nodeIdMap (ns @ [n]) = (build_nodeIdMap ns)(gnode_id n \<mapsto> length ns)"
  by (simp add: build_nodeIdMap_def enumerate_append_eq)

lemma build_nodeIdMap_Some:
  "build_nodeIdMap ns k = Some i \<Longrightarrow> i < length ns \<and> gnode_id (ns ! i) = k"
proof (induction ns arbitrary: i rule: rev_induct)
  case Nil
  then show ?case by (simp add: build_nodeIdMap_def)
next
  case (snoc n ns)
  show ?case
  proof (cases "gnode_id n = k")
    case True
    with snoc.prems have "i = length ns"
      by (simp add: build_nodeIdMap_snoc)
    with True show ?thesis by simp
  next
    case False
    with snoc.prems have "build_nodeIdMap ns k = Some i"
      by (simp add: build_nodeIdMap_snoc)
    from snoc.IH [OF this] show ?thesis
      by (simp add: nth_append)
  qed
qed

lemma build_nodeIdMap_dom: "dom (build_nodeIdMap ns) = gnode_id ` set ns"
proof (induction ns rule: rev_induct)
  case Nil
  show ?case by (simp add: build_nodeIdMap_def)
next
  case (snoc n ns)
  have "dom (build_nodeIdMap (ns @ [n])) = insert (gnode_id n) (dom (build_nodeIdMap ns))"
    by (simp add: build_nodeIdMap_snoc)
  with snoc show ?case by simp
qed

text \<open>
  What the transformation does guarantee: the nodes come out one for one, in order and
  with their ids (so the id sets agree), there is one link per relationship, and an
  endpoint that is found is a valid index of a node with that id. An endpoint is found
  exactly when some node has the id.
\<close>

lemma transform_nodes_ids:
  "map gnode_id (gnodes (transformNeo4jResultToGraphData (raw_of r))) = map node_id (nodes r)"
  by (simp add: transformNeo4jResultToGraphData_def raw_of_def Let_def comp_def)

lemma transform_links_length:
  "length (glinks (transformNeo4jResultToGraphData (raw_of r))) = length (relationships r)"
  by (simp add: transformNeo4jResultToGraphData_def raw_of_def Let_def)

lemma transform_link_source_valid:
  assumes "g = transformNeo4jResultToGraphData (raw_of r)"
    and "j < length (relationships r)"
    and "link_source (glinks g ! j) = Some i"
  shows "i < length (gnodes g) \<and> gnode_id (gnodes g ! i) = rel_startNodeId (relationships r ! j)"
proof -
  from assms have "build_nodeIdMap (map transform_node (nodes r)) (rel_startNodeId (relationships r ! j)) = Some i"
    by (simp add: transformNeo4jResultToGraphData_def raw_of_def Let_def transform_rel_def)
  from build_nodeIdMap_Some [OF this] assms(1) show ?thesis
    by (auto simp: transformNeo4jResultToGraphData_def raw_of_def Let_def)
qed

lemma transform_link_target_valid:
  assumes "g = transformNeo4jResultToGraphData (raw_of r)"
    and "j < length (relationships r)"
    and "link_target (glinks g ! j) = Some i"
  shows "i < length (gnodes g) \<and> gnode_id (gnodes g ! i) = rel_endNodeId (relationships r ! j)"
proof -
  from assms have "build_nodeIdMap (map transform_node (nodes r)) (rel_endNodeId (relationships r ! j)) = Some i"
    by (simp add: transformNeo4jResultToGraphData_def raw_of_def Let_def transform_rel_def)
  from build_nodeIdMap_Some [OF this] assms(1) show ?thesis
    by (auto simp: transformNeo4jResultToGraphData_def raw_of_def Let_def)
qed

lemma transform_link_target_undefined:
  assumes "g = transformNeo4jResultToGraphData (raw_of r)"
    and "j < length (relationships r)"
  shows "link_target (glinks g ! j) = None
           \<longleftrightarrow> rel_endNodeId (relationships r ! j) \<notin> node_id ` set (nodes r)"
proof -
  have "dom (build_nodeIdMap (map transform_node (nodes r))) = node_id ` set (nodes r)"
    by (simp add: build_nodeIdMap_dom image_image)
  then have "build_nodeIdMap (map transform_node (nodes r)) k = None
               \<longleftrightarrow> k \<notin> node_id ` set (nodes r)" for k
    by (metis domIff)
  with assms show ?thesis
    by (simp add: transformNeo4jResultToGraphData_def raw_of_def Let_def transform_rel_def)
qed

text \<open>
  Claim C1. Normalization is claimed to exclude every relationship whose start or end
  node id matches no emitted node, so that three nodes, two valid relationships and one
  relationship to an absent fourth node give exactly two links, each with valid indices.
  The code maps the relationships one for one and keeps the dangling one, with an
  undefined target: on that input it returns three links, and the third has no target.
\<close>

theorem C1_dangling_relationship_kept:
  "length (glinks (transformNeo4jResultToGraphData (raw_of dangling_input))) = 3
   \<and> map link_source (glinks (transformNeo4jResultToGraphData (raw_of dangling_input)))
       = [Some 0, Some 1, Some 2]
   \<and> map link_target (glinks (transformNeo4jResultToGraphData (raw_of dangling_input)))
       = [Some 1, Some 2, None]
   \<and> map gnode_id (gnodes (transformNeo4jResultToGraphData (raw_of dangling_input)))
       = [js ''1'', js ''2'', js ''3'']"
  by (simp add: transformNeo4jResultToGraphData_def raw_of_def dangling_input_def mk_node_def
      mk_rel_def build_nodeIdMap_def transform_rel_def transform_node_def js_def enumerate_eq_zip
      upt_rec)

subsection \<open>The rewrite of the ambiguous relationship\<close>

text \<open>
  A query in which the pattern of the label matches nowhere, as when every relationship
  of that label is already undirected, is left unchanged by the rewrite.
\<close>

lemma replace_global_no_match:
  "(\<And>pre suf. s = pre @ suf \<Longrightarrow> m suf = None) \<Longrightarrow> replace_global m s = s"
proof (induction s)
  case Nil
  show ?case by simp
next
  case (Cons c cs)
  have here: "m (c # cs) = None"
    using Cons.prems [of "[]" "c # cs"] by simp
  have "replace_global m cs = cs"
  proof (rule Cons.IH)
    fix pre suf assume "cs = pre @ suf"
    then show "m suf = None"
      using Cons.prems [of "c # pre" suf] by simp
  qed
  with here show ?case by simp
qed

lemma rewrite_wife_unchanged:
  assumes "\<And>pre suf. q = pre @ suf \<Longrightarrow> wife_directed suf = None"
  shows "rewrite_wife q = q"
proof -
  have "undirect_wife q = q"
    unfolding undirect_wife_def
    by (rule replace_global_no_match) (simp add: assms)
  then show ?thesis by (simp add: rewrite_wife_def)
qed

text \<open>
  Claim C8. The rewrite of the label's directed pattern to the undirected one is claimed
  to be idempotent on every query string: applying it twice equals applying it once.
  On the chain \<open>(a)-[:L]->(b)-[:L]->(c)\<close> the first application consumes \<open>(b)\<close> with the
  first match and leaves the second relationship directed; the second application then
  rewrites that one too, so the two results differ.
\<close>

theorem C8_rewrite_not_idempotent_on_chain:
  "rewrite_wife wife_chain
     = js ''MATCH (a)-[:'' @ wife @ js '']-(b)-[:'' @ wife @ js '']->(c) RETURN a,b,c''
   \<and> rewrite_wife (rewrite_wife wife_chain)
     = js ''MATCH (a)-[:'' @ wife @ js '']-(b)-[:'' @ wife @ js '']-(c) RETURN a,b,c''
   \<and> rewrite_wife (rewrite_wife wife_chain) \<noteq> rewrite_wife wife_chain"
  by (simp add: rewrite_wife_def wife_chain_def undirect_wife_def wife_directed_def js_def
      wife_def not_rparen_def Let_def)

subsection \<open>Parsing the LLM answer\<close>

lemma jsonBlockMatch_fenced_body: "jsonBlockMatch fenced_body = Some json_text"
  by (simp add: fenced_body_def jsonBlockMatch_def json_text_def js_def fence_def is_space_def)

lemma jsonMatch_json_text: "jsonMatch json_text = Some json_text"
  by (simp add: jsonMatch_def json_text_def js_def)

lemma lex_json_text:
  "lex json_text =
     Some [TLBrace, TValue (JString (js ''cypherQuery'')), TColon,
           TValue (JString (js ''MATCH (n) RETURN n'')), TComma,
           TValue (JString (js ''explanation'')), TColon, TValue (JString (js ''x'')), TRBrace]"
  by (simp add: json_text_def js_def is_json_ws_def)

lemma JSON_parse_json_text:
  "JSON_parse json_text =
     Some (JObject [(js ''cypherQuery'', JString (js ''MATCH (n) RETURN n'')),
                    (js ''explanation'', JString (js ''x''))])"
  by (simp add: JSON_parse_def lex_json_text deliver_def)

lemma try_parse_json_fenced_body:
  "try_parse_json fenced_body =
     Inr \<lparr>cypherQuery = JString (js ''MATCH (n) RETURN n''), explanation = JString (js ''x'')\<rparr>"
  by (simp add: try_parse_json_def jsonBlockMatch_fenced_body jsonMatch_json_text
      JSON_parse_json_text) (simp add: js_def)

text \<open>
  Claim C9. For the response body \<open>Here is the answer:\<close>, a line break and a fenced
  \<open>json\<close> block holding \<open>{"cypherQuery":"MATCH (n) RETURN n","explanation":"x"}\<close>, the
  parsing of the synthesizer yields the query \<open>MATCH (n) RETURN n\<close> and the explanation
  \<open>x\<close>.
\<close>

theorem C9_fenced_json_parsed:
  "parse_content fenced_body =
     \<lparr>cypherQuery = JString (js ''MATCH (n) RETURN n''), explanation = JString (js ''x'')\<rparr>"
  by (simp add: parse_content_def try_parse_json_fenced_body)



subsection \<open>The query synthesizer\<close>

text \<open>What \<open>generateCypherQuery\<close> returns, case by case: it always returns, and it calls
  the LLM at most once.\<close>

lemma generateCypherQuery_eq:
  "generateCypherQuery env msgs s ps key url model t =
     (if req_apiKey (completion_request env msgs s ps key url model) = []
      then (Inr \<lparr>cypherQuery = JString default_query, explanation = JString error_fallback_explanation\<rparr>, t)
      else
        (Inr (case completion_result env t (completion_request env msgs s ps key url model) of
                Inl e \<Rightarrow> \<lparr>cypherQuery = JString default_query,
                           explanation = JString error_fallback_explanation\<rparr>
              | Inr [] \<Rightarrow> \<lparr>cypherQuery = JString default_query,
                            explanation = JString error_fallback_explanation\<rparr>
              | Inr (c # cs) \<Rightarrow>
                  if falsy c then \<lparr>cypherQuery = JString default_query,
                                   explanation = JString error_fallback_explanation\<rparr>
                  else parse_content (str_or c [])),
         t @ [ChatCompletion (completion_request env msgs s ps key url model)]))"
  by (simp add: generateCypherQuery_def Let_def io_catch_def io_bind_def chat_completion_def
      io_throw_def io_return_def split: sum.splits list.splits)

subsection \<open>The example collaborators\<close>

lemma quiet_getDriver: "getDriver quiet_env c t = (Inr (), t @ [GetDriver c])"
  by (simp add: getDriver_def quiet_env_def)

lemma quiet_session_run: "session_run quiet_env q t = (Inr [], t @ [SessionRun q])"
  by (simp add: session_run_def quiet_env_def)

lemma quiet_session_close: "session_close quiet_env t = (Inr (), t @ [SessionClose])"
  by (simp add: session_close_def quiet_env_def)

lemma quiet_getGraphSchema:
  "getGraphSchema quiet_env c t =
     (Inr empty_schema,
      t @ [GetDriver c, SessionRun (js ''CALL db.labels()''),
           SessionRun (js ''CALL db.relationshipTypes()''), SessionClose])"
  by (simp add: getGraphSchema_def try_with_session_def quiet_getDriver io_finally_def
      io_catch_def io_bind_def quiet_session_run io_lift_def io_return_def quiet_session_close
      empty_schema_def)

lemma quiet_getNodeProperties:
  "getNodeProperties quiet_env c t =
     (Inr [],
      t @ [GetDriver c, GetDriver c, SessionRun (js ''CALL db.labels()''),
           SessionRun (js ''CALL db.relationshipTypes()''), SessionClose, SessionClose])"
  by (simp add: getNodeProperties_def try_with_session_def io_finally_def io_catch_def io_bind_def
      quiet_getGraphSchema empty_schema_def io_return_def quiet_getDriver quiet_session_close)

lemma quiet_executeQuery:
  "executeQuery quiet_env q c t =
     (Inr \<lparr>nodes = [], relationships = []\<rparr>, t @ [GetDriver c, SessionRun q, SessionClose])"
  by (simp add: executeQuery_def try_with_session_def quiet_getDriver io_finally_def
      io_catch_def io_bind_def quiet_session_run io_return_def quiet_session_close
      collect_nodes_def collect_rels_def)

lemma quiet_generateCypherQuery:
  "generateCypherQuery quiet_env msgs s ps (Some (js ''sk-test'')) None None t =
     (Inr \<lparr>cypherQuery = JString (js ''MATCH (n) RETURN n''), explanation = JString (js ''x'')\<rparr>,
      t @ [ChatCompletion \<lparr>req_model = js ''gpt-4'', req_baseURL = js ''https://api.openai.com/v1'',
             req_apiKey = js ''sk-test'', req_schema = s, req_nodeProperties = ps,
             req_messages = msgs\<rparr>])"
proof -
  have f: "\<not> falsy (Some fenced_body)" "str_or (Some fenced_body) [] = fenced_body"
    by (simp_all add: falsy_def str_or_def fenced_body_def js_def)
  have r: "completion_request quiet_env msgs s ps (Some (js ''sk-test'')) None None =
             \<lparr>req_model = js ''gpt-4'', req_baseURL = js ''https://api.openai.com/v1'',
              req_apiKey = js ''sk-test'', req_schema = s, req_nodeProperties = ps,
              req_messages = msgs\<rparr>"
    by (simp add: completion_request_def str_or_def quiet_env_def js_def)
  have k: "js ''sk-test'' \<noteq> []"
    by (simp add: js_def)
  have c: "completion_result quiet_env t0 q = Inr [Some fenced_body]" for t0 q
    by (simp add: quiet_env_def)
  show ?thesis
    using f k by (simp add: generateCypherQuery_eq r c parse_content_def try_parse_json_fenced_body)
qed

lemma annotate_no_messages:
  "annotate_messages empty_schema [] [] =
     [\<lparr>role = System, content = [Welcome, SchemaInfo empty_schema [], DirectionNote]\<rparr>]"
  by (simp add: annotate_messages_def)

lemma quiet_schema_stage:
  "schema_stage quiet_env c msgs t =
     ((empty_schema, [], annotate_messages empty_schema [] msgs),
      t @ [GetDriver c, SessionRun (js ''CALL db.labels()''),
           SessionRun (js ''CALL db.relationshipTypes()''), SessionClose,
           GetDriver c, GetDriver c, SessionRun (js ''CALL db.labels()''),
           SessionRun (js ''CALL db.relationshipTypes()''), SessionClose, SessionClose])"
  by (simp add: schema_stage_def quiet_getGraphSchema quiet_getNodeProperties)

lemma plain_query_facts:
  "rewrite_wife (js ''MATCH (n) RETURN n'') = js ''MATCH (n) RETURN n''"
  "\<not> js_includes (js ''MATCH (n) RETURN n'') arrow"
  "\<not> table_wanted (js ''MATCH (n) RETURN n'')"
  by (simp_all add: rewrite_wife_def js_def wife_def arrow_def table_wanted_def toLowerCase_def)

lemma quiet_execute_stage:
  "execute_stage quiet_env c (js ''MATCH (n) RETURN n'') t =
     (Inr (Continue \<lparr>nodes = [], relationships = []\<rparr> \<lparr>gnodes = [], glinks = []\<rparr>),
      t @ [GetDriver c, SessionRun (js ''MATCH (n) RETURN n''), SessionClose])"
  by (simp add: execute_stage_def execute_with_retries_def io_catch_def io_bind_def
      quiet_executeQuery repair_relationships_def plain_query_facts io_return_def
      add_manual_links_def transformNeo4jResultToGraphData_def raw_of_def build_nodeIdMap_def)

subsection \<open>Input validation of the handler\<close>




text \<open>
  Claim C5, as amended. A request whose body cannot be parsed, or whose body has no
  \<open>messages\<close> field, is rejected at once with status 400 and the message that the
  messages array is required; no call to the database or to the LLM is made.
\<close>

theorem C5_missing_messages_rejected:
  "POST env None t = (bad_request messages_required, t)
   \<and> (messages body = None \<longrightarrow> POST env (Some body) t = (bad_request messages_required, t))"
  by (simp add: POST_def)

theorem C5_missing_messages_rejected_witness:
  "messages (example_request None (Some (js ''sk-test''))) = None
   \<and> POST quiet_env (Some (example_request None (Some (js ''sk-test'')))) []
       = (bad_request messages_required, [])"
proof -
  have h: "messages (example_request None (Some (js ''sk-test''))) = None"
    by (simp add: example_request_def)
  from C5_missing_messages_rejected [of quiet_env "[]" "example_request None (Some (js ''sk-test''))"] h
  show ?thesis by simp
qed

text \<open>
  Claim C5, as stated: a request whose message set is empty would be rejected at once,
  with no schema fetch and no LLM call. For the request with \<open>messages: []\<close> and all
  credentials, the handler fetches the schema, calls the LLM and answers with status 200.
\<close>

theorem C5_empty_messages_not_rejected:
  "POST quiet_env (Some (example_request (Some []) (Some (js ''sk-test'')))) [] =
     (answer (JString (js ''x'')) \<lparr>nodes = [], relationships = []\<rparr> \<lparr>gnodes = [], glinks = []\<rparr> None,
      [GetDriver example_config, SessionRun (js ''CALL db.labels()''),
       SessionRun (js ''CALL db.relationshipTypes()''), SessionClose,
       GetDriver example_config, GetDriver example_config, SessionRun (js ''CALL db.labels()''),
       SessionRun (js ''CALL db.relationshipTypes()''), SessionClose, SessionClose,
       ChatCompletion quiet_llm_request,
       GetDriver example_config, SessionRun (js ''MATCH (n) RETURN n''), SessionClose])
   \<and> status (answer (JString (js ''x'')) \<lparr>nodes = [], relationships = []\<rparr>
                \<lparr>gnodes = [], glinks = []\<rparr> None) = 200"
proof -
  have k: "\<not> falsy (Some (js ''sk-test''))" "\<not> falsy (Some (js ''bolt://localhost:7687''))"
    "\<not> falsy (Some (js ''neo4j''))" "\<not> falsy (Some (js ''secret''))"
    by (simp_all add: falsy_def js_def)
  have t: "truthy (Some (JString (js ''MATCH (n) RETURN n'')))" "truthy (Some (JString (js ''x'')))"
    by (simp_all add: js_def)
  have s: "synthesis_stage quiet_env
             [\<lparr>role = System, content = [Welcome, SchemaInfo empty_schema [], DirectionNote]\<rparr>]
             empty_schema [] (example_request (Some []) (Some (js ''sk-test''))) t0 =
           ((JString (js ''MATCH (n) RETURN n''), JString (js ''x'')), t0 @ [ChatCompletion quiet_llm_request])" for t0
    using t by (simp add: synthesis_stage_def example_request_def quiet_generateCypherQuery
        quiet_llm_request_def)
  show ?thesis
    using k
    by (simp add: POST_def example_request_def quiet_schema_stage annotate_no_messages
        s [unfolded example_request_def] plain_query_facts quiet_execute_stage table_stage_def
        example_config_def answer_def Let_def)
qed

subsection \<open>The schema introspection\<close>

lemma getGraphSchema_driver_failure:
  assumes "getDriver_result env t c = Some e"
  shows "getGraphSchema env c t = (Inr empty_schema, t @ [GetDriver c])"
  using assms
  by (simp add: getGraphSchema_def try_with_session_def getDriver_def io_return_def)

lemma getGraphSchema_query_failure:
  assumes "getDriver_result env t c = None"
    and "run_result env (t @ [GetDriver c]) (js ''CALL db.labels()'') = Inl e"
    and "close_result env (t @ [GetDriver c, SessionRun (js ''CALL db.labels()'')]) = None"
  shows "getGraphSchema env c t =
           (Inr empty_schema, t @ [GetDriver c, SessionRun (js ''CALL db.labels()''), SessionClose])"
  using assms
  by (simp add: getGraphSchema_def try_with_session_def getDriver_def io_return_def io_finally_def
      io_catch_def io_bind_def session_run_def session_close_def)

text \<open>When \<open>getGraphSchema\<close> throws or returns the empty descriptor, the handler goes on
  with the empty schema, and the LLM is called with it.\<close>

lemma schema_stage_after_failure:
  assumes "fst (getGraphSchema env c t) = Inl e \<or> fst (getGraphSchema env c t) = Inr empty_schema"
  shows "fst (fst (schema_stage env c msgs t)) = empty_schema"
  using assms
  by (auto simp: schema_stage_def split: prod.splits sum.splits)

lemma synthesis_stage_calls_llm:
  assumes "\<not> falsy (openaiApiKey body)"
  shows "snd (synthesis_stage env msgs s ps body t) =
           t @ [ChatCompletion (completion_request env msgs s ps (openaiApiKey body)
                                  (openaiBaseUrl body) (modelName body))]
         \<and> req_schema (completion_request env msgs s ps (openaiApiKey body)
                          (openaiBaseUrl body) (modelName body)) = s"
proof -
  from assms
  have "req_apiKey (completion_request env msgs s ps (openaiApiKey body) (openaiBaseUrl body)
                      (modelName body)) \<noteq> []"
    by (auto simp: falsy_def str_or_def completion_request_def split: option.splits)
  then show ?thesis
    by (simp add: synthesis_stage_def generateCypherQuery_eq) (simp add: completion_request_def)
qed

lemma outage_getGraphSchema:
  "getGraphSchema outage_env c t =
     (Inl (js ''close failed''), t @ [GetDriver c, SessionRun (js ''CALL db.labels()''), SessionClose])"
  by (simp add: getGraphSchema_def try_with_session_def getDriver_def io_return_def io_finally_def
      io_catch_def io_bind_def session_run_def session_close_def outage_env_def)

lemma outage_executeQuery:
  "executeQuery outage_env q c t =
     (Inl (js ''Database query failed: '' @ js ''ServiceUnavailable''),
      t @ [GetDriver c, SessionRun q, SessionClose])"
  by (simp add: executeQuery_def try_with_session_def getDriver_def io_return_def io_finally_def
      io_catch_def io_bind_def session_run_def session_close_def outage_env_def io_throw_def)

lemma outage_generateCypherQuery:
  "generateCypherQuery outage_env msgs s ps (Some (js ''sk-test'')) None None t =
     (Inr \<lparr>cypherQuery = JString (js ''MATCH (n) RETURN n''), explanation = JString (js ''x'')\<rparr>,
      t @ [ChatCompletion \<lparr>req_model = js ''gpt-4'', req_baseURL = js ''https://api.openai.com/v1'',
             req_apiKey = js ''sk-test'', req_schema = s, req_nodeProperties = ps,
             req_messages = msgs\<rparr>])"
proof -
  have f: "\<not> falsy (Some fenced_body)" "str_or (Some fenced_body) [] = fenced_body"
    by (simp_all add: falsy_def str_or_def fenced_body_def js_def)
  have r: "completion_request outage_env msgs s ps (Some (js ''sk-test'')) None None =
             \<lparr>req_model = js ''gpt-4'', req_baseURL = js ''https://api.openai.com/v1'',
              req_apiKey = js ''sk-test'', req_schema = s, req_nodeProperties = ps,
              req_messages = msgs\<rparr>"
    by (simp add: completion_request_def str_or_def outage_env_def js_def)
  have k: "js ''sk-test'' \<noteq> []"
    by (simp add: js_def)
  have c: "completion_result outage_env t0 q = Inr [Some fenced_body]" for t0 q
    by (simp add: outage_env_def)
  show ?thesis
    using f k by (simp add: generateCypherQuery_eq r c parse_content_def try_parse_json_fenced_body)
qed

text \<open>
  Claim C6. Whenever the introspection fails, \<open>getGraphSchema\<close> is claimed to return the
  empty descriptor rather than to throw. When the query and then \<open>session.close()\<close> in the
  \<open>finally\<close> block both fail, \<open>getGraphSchema\<close> rejects with the error of \<open>close\<close>. The
  handler catches that, and the LLM is still called with the empty schema.
\<close>

theorem C6_close_failure_escapes_getGraphSchema:
  "getGraphSchema outage_env example_config [] =
     (Inl (js ''close failed''),
      [GetDriver example_config, SessionRun (js ''CALL db.labels()''), SessionClose])
   \<and> POST outage_env (Some (example_request (Some user_question) (Some (js ''sk-test'')))) [] =
     (query_error_response (js ''Database query failed: '' @ js ''ServiceUnavailable''),
      [GetDriver example_config, SessionRun (js ''CALL db.labels()''), SessionClose,
       ChatCompletion \<lparr>req_model = js ''gpt-4'', req_baseURL = js ''https://api.openai.com/v1'',
          req_apiKey = js ''sk-test'', req_schema = empty_schema, req_nodeProperties = [],
          req_messages = user_question\<rparr>,
       GetDriver example_config, SessionRun (js ''MATCH (n) RETURN n''), SessionClose])"
proof -
  have k: "\<not> falsy (Some (js ''sk-test''))" "\<not> falsy (Some (js ''bolt://localhost:7687''))"
    "\<not> falsy (Some (js ''neo4j''))" "\<not> falsy (Some (js ''secret''))"
    by (simp_all add: falsy_def js_def)
  have t: "truthy (Some (JString (js ''MATCH (n) RETURN n'')))" "truthy (Some (JString (js ''x'')))"
    by (simp_all add: js_def)
  have e: "\<not> js_includes (js ''Database query failed: '' @ js ''ServiceUnavailable'') (js ''toString'')"
    "\<not> js_includes (js ''Database query failed: '' @ js ''ServiceUnavailable'') (js ''startNodeIdentity'')"
    "\<not> js_includes (js ''Database query failed: '' @ js ''ServiceUnavailable'') (js ''endNodeIdentity'')"
    by (simp_all add: js_def)
  have x: "execute_stage outage_env c (js ''MATCH (n) RETURN n'') t0 =
             (Inr (Returned (query_error_response (js ''Database query failed: '' @ js ''ServiceUnavailable''))),
              t0 @ [GetDriver c, SessionRun (js ''MATCH (n) RETURN n''), SessionClose])" for c t0
    using e by (simp add: execute_stage_def execute_with_retries_def io_catch_def io_bind_def
        outage_executeQuery io_return_def)
  have p: "POST outage_env (Some (example_request (Some user_question) (Some (js ''sk-test'')))) [] =
     (query_error_response (js ''Database query failed: '' @ js ''ServiceUnavailable''),
      [GetDriver example_config, SessionRun (js ''CALL db.labels()''), SessionClose,
       ChatCompletion \<lparr>req_model = js ''gpt-4'', req_baseURL = js ''https://api.openai.com/v1'',
          req_apiKey = js ''sk-test'', req_schema = empty_schema, req_nodeProperties = [],
          req_messages = user_question\<rparr>,
       GetDriver example_config, SessionRun (js ''MATCH (n) RETURN n''), SessionClose])"
    using k t
    by (simp add: POST_def example_request_def schema_stage_def outage_getGraphSchema
        synthesis_stage_def outage_generateCypherQuery plain_query_facts x example_config_def Let_def)
  show ?thesis
    using p by (simp add: outage_getGraphSchema)
qed

subsection \<open>The fallback of the synthesizer\<close>











subsection \<open>The retries after an empty result\<close>









text \<open>A relationship with a variable passes the test for \<open>->\<close>, but the pattern of the two
  rewrites does not match it: both retries execute the query as it is.\<close>

lemma variable_query_not_rewritten:
  "js_includes variable_query arrow"
  "reversedQuery variable_query = variable_query"
  "undirectedQuery variable_query = variable_query"
  by (simp_all add: variable_query_def arrow_def reversedQuery_def undirectedQuery_def
      directed_pattern_def js_def not_rparen_def Let_def)




subsection \<open>The table\<close>

lemma map_throwing_Inr:
  "map_throwing f xs = Inr ys \<Longrightarrow> length ys = length xs \<and> (\<forall>j<length xs. f (xs ! j) = Inr (ys ! j))"
proof (induction xs arbitrary: ys)
  case Nil
  then show ?case by simp
next
  case (Cons x xs)
  from Cons.prems obtain y ys' where y: "f x = Inr y" and ys': "map_throwing f xs = Inr ys'"
    and eq: "ys = y # ys'"
    by (auto split: sum.splits)
  from Cons.IH [OF ys'] y eq show ?case
    by (auto simp: nth_Cons split: nat.splits)
qed

lemma table_row_cell:
  "table_row cols r = Inr row \<Longrightarrow> c \<in> set cols
     \<Longrightarrow> \<exists>v. map_of r c = Some v \<and> map_of row c = Some (flatten_cell v)"
proof (induction cols arbitrary: row)
  case Nil
  then show ?case by simp
next
  case (Cons c' cols)
  from Cons.prems(1) obtain v' row' where v': "map_of r c' = Some v'"
    and row': "table_row cols r = Inr row'" and eq: "row = (c', flatten_cell v') # row'"
    by (auto simp: table_row_def record_get_def split: sum.splits option.splits)
  show ?case
  proof (cases "c = c'")
    case True
    with v' eq show ?thesis by simp
  next
    case False
    with Cons.prems(2) have "c \<in> set cols" by simp
    from Cons.IH [OF row' this] False eq show ?thesis by simp
  qed
qed

lemma build_table_Some:
  assumes "build_table records = Inr (Some table)"
  shows "\<exists>r rs. records = r # rs \<and> columns table = map fst r
           \<and> map_throwing (table_row (map fst r)) records = Inr (rows table)"
  using assms
  by (auto simp: build_table_def split: list.splits sum.splits)

lemma table_stage_Some:
  assumes "table_stage env c q t = (Some table, t')"
  shows "table_wanted q
         \<and> (\<exists>records. run_result env (t @ [GetDriver c]) q = Inr records
               \<and> build_table records = Inr (Some table))"
  using assms
  by (auto simp: table_stage_def io_bind_def getDriver_def session_run_def session_close_def
      io_lift_def split: if_splits prod.splits sum.splits option.splits)

lemma flatten_cell_cases:
  "flatten_cell (VNode i ls ps) = VMap ps"
  "flatten_cell (VRel i ty s e ps) = VMap ps"
  "flatten_cell VNull = VNull"
  "flatten_cell (VBool b) = VBool b"
  "flatten_cell (VInt n) = VInt n"
  "flatten_cell (VString str) = VString str"
  by (simp_all add: flatten_cell_def)

text \<open>
  Claim C4, as amended. A table is produced only when the query text, in lower case,
  contains \<open>return\<close> and contains \<open>.name\<close> or \<open>as \<close>, wherever in the text. When it is
  produced, the result set has a first record, the columns are the field names of that
  record, there is one row per record, and the cell of a row under a column is the
  record's value in that column, where a node or a relationship is replaced by its
  property map and \<open>null\<close>, a boolean, an integer and a string stay as they are.
\<close>

theorem C4_table_for_projections_only:
  assumes "table_stage env c q t = (Some table, t')"
  shows "js_includes (toLowerCase q) (js ''return'')
         \<and> (js_includes (toLowerCase q) (js ''.name'') \<or> js_includes (toLowerCase q) (js ''as ''))
         \<and> (\<exists>r rs. run_result env (t @ [GetDriver c]) q = Inr (r # rs)
               \<and> columns table = map fst r
               \<and> length (rows table) = length (r # rs)
               \<and> (\<forall>j<length (r # rs). \<forall>col\<in>set (columns table).
                     \<exists>v. map_of ((r # rs) ! j) col = Some v
                         \<and> map_of (rows table ! j) col = Some (flatten_cell v)))
         \<and> (\<forall>i ls ps. flatten_cell (VNode i ls ps) = VMap ps)
         \<and> (\<forall>i ty s e ps. flatten_cell (VRel i ty s e ps) = VMap ps)
         \<and> flatten_cell VNull = VNull
         \<and> (\<forall>b. flatten_cell (VBool b) = VBool b)
         \<and> (\<forall>n. flatten_cell (VInt n) = VInt n)
         \<and> (\<forall>str. flatten_cell (VString str) = VString str)"
proof -
  from table_stage_Some [OF assms] obtain records where w: "table_wanted q"
    and run: "run_result env (t @ [GetDriver c]) q = Inr records"
    and bt: "build_table records = Inr (Some table)"
    by blast
  from build_table_Some [OF bt] obtain r rs where recs: "records = r # rs"
    and cols: "columns table = map fst r"
    and rws: "map_throwing (table_row (map fst r)) records = Inr (rows table)"
    by blast
  from map_throwing_Inr [OF rws]
  have len: "length (rows table) = length records"
    and each: "\<forall>j<length records. table_row (map fst r) (records ! j) = Inr (rows table ! j)"
    by simp_all
  have cells: "\<forall>j<length (r # rs). \<forall>col\<in>set (columns table).
                 \<exists>v. map_of ((r # rs) ! j) col = Some v
                     \<and> map_of (rows table ! j) col = Some (flatten_cell v)"
  proof (intro allI impI ballI)
    fix j col assume j: "j < length (r # rs)" and col: "col \<in> set (columns table)"
    from each j recs have "table_row (map fst r) ((r # rs) ! j) = Inr (rows table ! j)"
      by simp
    from table_row_cell [OF this] col cols
    show "\<exists>v. map_of ((r # rs) ! j) col = Some v \<and> map_of (rows table ! j) col = Some (flatten_cell v)"
      by simp
  qed
  from w have "js_includes (toLowerCase q) (js ''return'')
      \<and> (js_includes (toLowerCase q) (js ''.name'') \<or> js_includes (toLowerCase q) (js ''as ''))"
    by (simp add: table_wanted_def)
  moreover from run recs cols len cells
  have "\<exists>r rs. run_result env (t @ [GetDriver c]) q = Inr (r # rs)
               \<and> columns table = map fst r
               \<and> length (rows table) = length (r # rs)
               \<and> (\<forall>j<length (r # rs). \<forall>col\<in>set (columns table).
                     \<exists>v. map_of ((r # rs) ! j) col = Some v
                         \<and> map_of (rows table ! j) col = Some (flatten_cell v))"
    by auto
  ultimately show ?thesis
    by (simp add: flatten_cell_cases)
qed

lemma name_query_wanted: "table_wanted name_query"
  by (simp add: table_wanted_def name_query_def toLowerCase_def js_def)

lemma table_env_stage:
  "table_stage table_env example_config name_query [] =
     (Some \<lparr>columns = [js ''name'', js ''n''],
            rows = [[(js ''name'', VString (js ''Ann'')),
                     (js ''n'', VMap [(js ''name'', VString (js ''Ann''))])]]\<rparr>,
      [GetDriver example_config, SessionRun name_query, SessionClose])"
  by (simp add: table_stage_def name_query_wanted io_bind_def getDriver_def session_run_def
      session_close_def io_lift_def table_env_def build_table_def table_row_def record_get_def
      ann_record_def flatten_cell_def js_def)

theorem C4_table_for_projections_only_witness:
  "table_stage table_env example_config name_query [] =
     (Some \<lparr>columns = [js ''name'', js ''n''],
            rows = [[(js ''name'', VString (js ''Ann'')),
                     (js ''n'', VMap [(js ''name'', VString (js ''Ann''))])]]\<rparr>,
      [GetDriver example_config, SessionRun name_query, SessionClose])
   \<and> js_includes (toLowerCase name_query) (js ''return'')
   \<and> (js_includes (toLowerCase name_query) (js ''.name'')
        \<or> js_includes (toLowerCase name_query) (js ''as ''))
   \<and> flatten_cell (VNode 1 [js ''Person''] [(js ''name'', VString (js ''Ann''))])
       = VMap [(js ''name'', VString (js ''Ann''))]
   \<and> flatten_cell (VString (js ''Ann'')) = VString (js ''Ann'')"
  using C4_table_for_projections_only [OF table_env_stage] table_env_stage
  by simp

lemma gas_query_facts: "table_wanted gas_query" "\<not> claimed_trigger gas_query"
  by (simp_all add: table_wanted_def claimed_trigger_def gas_query_def toLowerCase_def js_def)

text \<open>
  Claim C4, as stated: a table would be produced only for a query with a property access
  or an \<open>AS\<close> alias, not for one that returns whole nodes. The query \<open>MATCH (gas:Fuel)
  RETURN gas LIMIT 5\<close> has neither and returns a node, but its lower-case text contains
  \<open>as \<close> inside \<open>gas \<close>: the table is produced, with the node flattened.
\<close>

theorem C4_table_without_projection:
  "table_stage gas_env example_config gas_query [] =
     (Some \<lparr>columns = [js ''gas''], rows = [[(js ''gas'', VMap [(js ''octane'', VInt 95)])]]\<rparr>,
      [GetDriver example_config, SessionRun gas_query, SessionClose])
   \<and> \<not> claimed_trigger gas_query"
  by (simp add: table_stage_def gas_query_facts io_bind_def getDriver_def session_run_def
      session_close_def io_lift_def gas_env_def build_table_def table_row_def record_get_def
      flatten_cell_def js_def)

text \<open>
  Claim C10. \<open>transformNeo4jResultToGraphData\<close> returns the empty graph for an input that
  is \<open>null\<close>/\<open>undefined\<close>, or that lacks its \<open>nodes\<close> field, or that lacks its
  \<open>relationships\<close> field.
\<close>

theorem C10_transform_total_on_missing_input:
  "transformNeo4jResultToGraphData None = \<lparr>gnodes = [], glinks = []\<rparr>
   \<and> transformNeo4jResultToGraphData (Some \<lparr>raw_nodes = None, raw_relationships = rs\<rparr>)
       = \<lparr>gnodes = [], glinks = []\<rparr>
   \<and> transformNeo4jResultToGraphData (Some \<lparr>raw_nodes = ns, raw_relationships = None\<rparr>)
       = \<lparr>gnodes = [], glinks = []\<rparr>"
  by (simp add: transformNeo4jResultToGraphData_def split: option.splits)

end
